theory Spec2Isabelle
  imports Complex_Main
begin

chapter \<open>Keychain studio: the 2D polygon to 3D solid pipeline\<close>

text \<open>
  A shallow embedding of the geometry code of the four designer components
  (text outline, initial plus text, name tag, flower) and of the shared helpers
  of \<^verbatim>\<open>lib/utils\<close>. JavaScript numbers are modelled as real numbers, the integer
  coordinates of the polygon engine as integers. The polygon engine (ClipperLib),
  the font, the extrusion engine and the STL exporter are libraries outside the
  repository: the operations the code calls on them are parameters of the model.
\<close>

section \<open>Points, polygon trees and shapes\<close>

text \<open>A ClipperLib point \<^verbatim>\<open>{X, Y}\<close> and a \<^verbatim>\<open>THREE.Vector2\<close>.\<close>

type_synonym IntPoint = "int \<times> int"
type_synonym Vector2 = "real \<times> real"

text \<open>
  A node of a ClipperLib PolyTree, read through \<^verbatim>\<open>IsHole()\<close>, \<^verbatim>\<open>Contour()\<close> and
  \<^verbatim>\<open>Childs()\<close>. A tree is the list of its root nodes.
\<close>

datatype PolyNode =
  PolyNode (m_IsHole: bool) (m_polygon: "IntPoint list") (m_Childs: "PolyNode list")

type_synonym PolyTree = "PolyNode list"

text \<open>
  A \<^verbatim>\<open>THREE.Shape\<close>: the points of its outer boundary and the points of each of
  its holes.
\<close>

record Shape =
  shapePts :: "Vector2 list"
  holes :: "Vector2 list list"

text \<open>The one scale factor, \<^verbatim>\<open>const SCALE = 1000\<close> in every component.\<close>

definition SCALE :: real where
  "SCALE = 1000"

text \<open>
  Entering the engine (\<^verbatim>\<open>toPath\<close> in \<^verbatim>\<open>shapeToPaths\<close>):
  \<^verbatim>\<open>{X: Math.round(p.x * SCALE), Y: Math.round(p.y * SCALE)}\<close>.
  \<^verbatim>\<open>Math.round\<close> is \<open>\<lfloor>x + 1/2\<rfloor>\<close>, which is \<^const>\<open>round\<close>.
\<close>

definition toIntPoint :: "Vector2 \<Rightarrow> IntPoint" where
  "toIntPoint p = (round (fst p * SCALE), round (snd p * SCALE))"

text \<open>
  \<^verbatim>\<open>toPath\<close>: scale every point, then drop the last point when it repeats the
  first and more than two points are present.
\<close>

definition toPath :: "Vector2 list \<Rightarrow> IntPoint list" where
  "toPath pts =
     (let out = map toIntPoint pts
      in if length out > 2 \<and> hd out = last out then butlast out else out)"

text \<open>Leaving the engine: \<^verbatim>\<open>new THREE.Vector2(pt.X / SCALE, pt.Y / SCALE)\<close>.\<close>

definition toVec2 :: "IntPoint \<Rightarrow> Vector2" where
  "toVec2 pt = (real_of_int (fst pt) / SCALE, real_of_int (snd pt) / SCALE)"

text \<open>
  \<^verbatim>\<open>THREE.ShapeUtils.area\<close> and \<^verbatim>\<open>isClockWise\<close> of the three.js library:
  the loop \<^verbatim>\<open>for (p = n - 1, q = 0; q < n; p = q++)\<close> adds
  \<^verbatim>\<open>contour[p].x * contour[q].y - contour[q].x * contour[p].y\<close>, the area is
  half the sum, and a contour is clockwise when its area is negative.
\<close>

fun areaLoop :: "Vector2 \<Rightarrow> Vector2 list \<Rightarrow> real" where
  "areaLoop p [] = 0"
| "areaLoop p (q # qs) = (fst p * snd q - fst q * snd p) + areaLoop q qs"

definition area :: "Vector2 list \<Rightarrow> real" where
  "area contour = (if contour = [] then 0 else areaLoop (last contour) contour * 0.5)"

definition isClockWise :: "Vector2 list \<Rightarrow> bool" where
  "isClockWise pts = (area pts < 0)"

section \<open>Shape reconstruction\<close>

subsection \<open>Text outline designer\<close>

text \<open>
  \<^verbatim>\<open>polyTreeToThreeShapes\<close> of the text outline designer. The array
  \<^verbatim>\<open>shapesOut\<close> is threaded through the calls. \<^verbatim>\<open>buildFromOuter\<close> returns
  \<^verbatim>\<open>null\<close> (here \<^const>\<open>None\<close>) for a contour of fewer than three points;
  \<open>childrenLoop\<close> is its loop over the children of the outer node and
  \<open>holeKidsLoop\<close> the inner loop over the children of a hole, which pushes
  the result of the recursive call whatever it is.
\<close>

function (sequential)
  buildFromOuter_outline ::
    "PolyNode \<Rightarrow> Shape option list \<Rightarrow> Shape option \<times> Shape option list" and
  childrenLoop_outline ::
    "PolyNode list \<Rightarrow> Shape \<Rightarrow> Shape option list \<Rightarrow> Shape \<times> Shape option list" and
  holeKidsLoop_outline ::
    "PolyNode list \<Rightarrow> Shape option list \<Rightarrow> Shape option list"
where
  "buildFromOuter_outline (PolyNode isHole contour children) shapesOut =
     (if length contour < 3 then (None, shapesOut)
      else
        let outerPts = map toVec2 contour;
            outerPts = (if isClockWise outerPts then rev outerPts else outerPts);
            shape = \<lparr>shapePts = outerPts, holes = []\<rparr>;
            (shape, shapesOut) = childrenLoop_outline children shape shapesOut
        in (Some shape, shapesOut))"
| "childrenLoop_outline [] shape shapesOut = (shape, shapesOut)"
| "childrenLoop_outline (PolyNode isHole holeContour holeKids # rest) shape shapesOut =
     (if \<not> isHole then childrenLoop_outline rest shape shapesOut
      else
        let shape =
              (if length holeContour \<ge> 3 then
                 let holePts = map toVec2 holeContour;
                     holePts = (if \<not> isClockWise holePts then rev holePts else holePts)
                 in shape\<lparr>holes := holes shape @ [holePts]\<rparr>
               else shape);
            shapesOut = holeKidsLoop_outline holeKids shapesOut
        in childrenLoop_outline rest shape shapesOut)"
| "holeKidsLoop_outline [] shapesOut = shapesOut"
| "holeKidsLoop_outline (hk # rest) shapesOut =
     (if \<not> m_IsHole hk then
        let (s, shapesOut) = buildFromOuter_outline hk shapesOut
        in holeKidsLoop_outline rest (shapesOut @ [s])
      else holeKidsLoop_outline rest shapesOut)"
  by pat_completeness auto
termination
  by (relation "measure (\<lambda>x. case x of
          Inl (n, _) \<Rightarrow> size n
        | Inr (Inl (ns, _, _)) \<Rightarrow> size_list size ns
        | Inr (Inr (ns, _)) \<Rightarrow> size_list size ns)") auto

text \<open>The loop over the roots: hole roots are skipped, \<^verbatim>\<open>null\<close> results are not pushed.\<close>

fun rootsLoop_outline :: "PolyTree \<Rightarrow> Shape option list \<Rightarrow> Shape option list" where
  "rootsLoop_outline [] shapesOut = shapesOut"
| "rootsLoop_outline (n # rest) shapesOut =
     (if m_IsHole n then rootsLoop_outline rest shapesOut
      else
        let (s, shapesOut) = buildFromOuter_outline n shapesOut
        in rootsLoop_outline rest (case s of Some _ \<Rightarrow> shapesOut @ [s] | None \<Rightarrow> shapesOut))"

definition polyTreeToThreeShapes_outline :: "PolyTree \<Rightarrow> Shape option list" where
  "polyTreeToThreeShapes_outline tree = rootsLoop_outline tree []"

subsection \<open>Initial designer\<close>

text \<open>
  \<^verbatim>\<open>polyTreeToThreeShapes\<close> of the initial designer: the same walk, but the
  contours go into the shape as they come from the tree, and a short contour
  returns \<^verbatim>\<open>undefined\<close> (here \<^const>\<open>None\<close>).
\<close>

function (sequential)
  buildFromOuter_initial ::
    "PolyNode \<Rightarrow> Shape option list \<Rightarrow> Shape option \<times> Shape option list" and
  childrenLoop_initial ::
    "PolyNode list \<Rightarrow> Shape \<Rightarrow> Shape option list \<Rightarrow> Shape \<times> Shape option list" and
  holeKidsLoop_initial ::
    "PolyNode list \<Rightarrow> Shape option list \<Rightarrow> Shape option list"
where
  "buildFromOuter_initial (PolyNode isHole contour children) shapesOut =
     (if length contour < 3 then (None, shapesOut)
      else
        let shape = \<lparr>shapePts = map toVec2 contour, holes = []\<rparr>;
            (shape, shapesOut) = childrenLoop_initial children shape shapesOut
        in (Some shape, shapesOut))"
| "childrenLoop_initial [] shape shapesOut = (shape, shapesOut)"
| "childrenLoop_initial (PolyNode isHole holeContour holeKids # rest) shape shapesOut =
     (if \<not> isHole then childrenLoop_initial rest shape shapesOut
      else
        let shape =
              (if length holeContour \<ge> 3
               then shape\<lparr>holes := holes shape @ [map toVec2 holeContour]\<rparr>
               else shape);
            shapesOut = holeKidsLoop_initial holeKids shapesOut
        in childrenLoop_initial rest shape shapesOut)"
| "holeKidsLoop_initial [] shapesOut = shapesOut"
| "holeKidsLoop_initial (hk # rest) shapesOut =
     (if \<not> m_IsHole hk then
        let (s, shapesOut) = buildFromOuter_initial hk shapesOut
        in holeKidsLoop_initial rest (shapesOut @ [s])
      else holeKidsLoop_initial rest shapesOut)"
  by pat_completeness auto
termination
  by (relation "measure (\<lambda>x. case x of
          Inl (n, _) \<Rightarrow> size n
        | Inr (Inl (ns, _, _)) \<Rightarrow> size_list size ns
        | Inr (Inr (ns, _)) \<Rightarrow> size_list size ns)") auto

fun rootsLoop_initial :: "PolyTree \<Rightarrow> Shape option list \<Rightarrow> Shape option list" where
  "rootsLoop_initial [] shapesOut = shapesOut"
| "rootsLoop_initial (n # rest) shapesOut =
     (if m_IsHole n then rootsLoop_initial rest shapesOut
      else
        let (s, shapesOut) = buildFromOuter_initial n shapesOut
        in rootsLoop_initial rest (case s of Some _ \<Rightarrow> shapesOut @ [s] | None \<Rightarrow> shapesOut))"

definition polyTreeToThreeShapes_initial :: "PolyTree \<Rightarrow> Shape option list" where
  "polyTreeToThreeShapes_initial tree = rootsLoop_initial tree []"

subsection \<open>The regions the specification asks for\<close>

text \<open>
  The specification's reading of the tree, written without the code: the islands
  of a list of children are the non-hole children of its hole nodes; the fill
  nodes below a node are the node itself and, recursively, the fill nodes below
  its islands; the fill nodes of a tree are those below its non-hole roots.
\<close>

definition islandsIn :: "PolyNode list \<Rightarrow> PolyNode list" where
  "islandsIn children =
     concat (map (\<lambda>ch. if m_IsHole ch then filter (\<lambda>hk. \<not> m_IsHole hk) (m_Childs ch) else [])
               children)"

function fillNodes :: "PolyNode \<Rightarrow> PolyNode list" where
  "fillNodes n = concat (map fillNodes (islandsIn (m_Childs n))) @ [n]"
  by pat_completeness auto
termination
proof (relation "measure size")
  show "wf (measure size)" by simp
next
  fix n x :: PolyNode
  assume mem: "x \<in> set (islandsIn (m_Childs n))"
  have est: "hk \<in> set (islandsIn chs) \<Longrightarrow> size hk < Suc (size_list size chs)" for hk chs
  proof (induction chs)
    case Nil
    then show ?case by (simp add: islandsIn_def)
  next
    case (Cons ch chs)
    show ?case
    proof (cases "hk \<in> set (islandsIn chs)")
      case True
      with Cons.IH show ?thesis by simp
    next
      case False
      with Cons.prems have "hk \<in> set (m_Childs ch)"
        by (auto simp: islandsIn_def split: if_splits)
      then have "size hk < Suc (size_list size (m_Childs ch))"
        by (simp add: less_Suc_eq_le size_list_estimation')
      moreover have "size ch = Suc (size_list size (m_Childs ch))"
        by (cases ch) simp
      ultimately show ?thesis by simp
    qed
  qed
  from est[OF mem] have "size x < Suc (size_list size (m_Childs n))" .
  moreover have "size n = Suc (size_list size (m_Childs n))" by (cases n) simp
  ultimately show "(x, n) \<in> measure size" by simp
qed

declare fillNodes.simps [simp del]

definition fillNodesOfTree :: "PolyTree \<Rightarrow> PolyNode list" where
  "fillNodesOfTree tree = concat (map fillNodes (filter (\<lambda>n. \<not> m_IsHole n) tree))"

text \<open>
  The orientation the extrusion engine expects: outer boundaries counter-clockwise,
  holes clockwise.
\<close>

definition ensureCCW :: "Vector2 list \<Rightarrow> Vector2 list" where
  "ensureCCW pts = (if isClockWise pts then rev pts else pts)"

definition ensureCWHole :: "Vector2 list \<Rightarrow> Vector2 list" where
  "ensureCWHole pts = (if \<not> isClockWise pts then rev pts else pts)"

text \<open>
  The region of a fill node: its own contour as outer boundary and its direct hole
  children (of at least three points) as holes, oriented for the extrusion engine
  (\<open>regionOf\<close>) or taken as they are (\<open>rawRegionOf\<close>).
\<close>

definition holesOf :: "PolyNode list \<Rightarrow> Vector2 list list" where
  "holesOf children =
     map (\<lambda>ch. ensureCWHole (map toVec2 (m_polygon ch)))
       (filter (\<lambda>ch. m_IsHole ch \<and> 3 \<le> length (m_polygon ch)) children)"

definition regionOf :: "PolyNode \<Rightarrow> Shape" where
  "regionOf n =
     \<lparr>shapePts = ensureCCW (map toVec2 (m_polygon n)), holes = holesOf (m_Childs n)\<rparr>"

definition rawHolesOf :: "PolyNode list \<Rightarrow> Vector2 list list" where
  "rawHolesOf children =
     map (\<lambda>ch. map toVec2 (m_polygon ch))
       (filter (\<lambda>ch. m_IsHole ch \<and> 3 \<le> length (m_polygon ch)) children)"

definition rawRegionOf :: "PolyNode \<Rightarrow> Shape" where
  "rawRegionOf n = \<lparr>shapePts = map toVec2 (m_polygon n), holes = rawHolesOf (m_Childs n)\<rparr>"

section \<open>Shared helpers\<close>

subsection \<open>The font cache\<close>

text \<open>
  \<^verbatim>\<open>FONT_OPTIONS\<close>; the imported JSON asset of an option is named by a string.
\<close>

record FontOption =
  key :: string
  label :: string
  json :: string
  fontFamily :: string

definition FONT_OPTIONS :: "FontOption list" where
  "FONT_OPTIONS =
     [\<lparr>key = ''Titan One_Regular'', label = ''Titan One (Regular)'',
        json = ''titanOneJson'', fontFamily = ''Titan One''\<rparr>,
      \<lparr>key = ''Showpop_Regular'', label = ''Showpop (Regular)'',
        json = ''showpopJson'', fontFamily = ''Showpop''\<rparr>,
      \<lparr>key = ''Retro Dolly_Book'', label = ''Retro Dolly (Book)'',
        json = ''retroDollyJson'', fontFamily = ''Retro Dolly''\<rparr>,
      \<lparr>key = ''Kindergo_Regular'', label = ''Kindergo (Regular)'',
        json = ''kindergoJson'', fontFamily = ''Kindergo''\<rparr>,
      \<lparr>key = ''Beautiful Harmony_Regular'', label = ''Beautiful Harmony (Regular)'',
        json = ''beautifulHarmonyJson'', fontFamily = ''Beautiful Harmony''\<rparr>,
      \<lparr>key = ''Milkyway_Regular'', label = ''Milkyway (Regular)'',
        json = ''milkywayJson'', fontFamily = ''Milkyway''\<rparr>]"

text \<open>
  A parsed font is an object: the JSON it was parsed from and its identity, the
  number of \<^verbatim>\<open>fontLoader.parse\<close> calls made before it was created.
\<close>

record Font =
  fontJson :: string
  fontId :: nat

text \<open>
  The module state of \<^verbatim>\<open>getFont\<close>: the \<^verbatim>\<open>fontCache\<close> map and, to count the
  parses, the keys \<^verbatim>\<open>fontLoader.parse\<close> was called for, in order.
\<close>

record FontStore =
  fontCache :: "string \<rightharpoonup> Font"
  parseLog :: "string list"

definition emptyFontStore :: FontStore where
  "emptyFontStore = \<lparr>fontCache = Map.empty, parseLog = []\<rparr>"

text \<open>\<^verbatim>\<open>FONT_OPTIONS.find((o) => o.key === key) ?? FONT_OPTIONS[0]\<close>.\<close>

definition findFontOption :: "string \<Rightarrow> FontOption" where
  "findFontOption k =
     (case find (\<lambda>opt. key opt = k) FONT_OPTIONS of
        Some opt \<Rightarrow> opt
      | None \<Rightarrow> FONT_OPTIONS ! 0)"

text \<open>\<^verbatim>\<open>getFont\<close>; a cached font object is always truthy.\<close>

definition getFont :: "string \<Rightarrow> FontStore \<Rightarrow> Font \<times> FontStore" where
  "getFont k store =
     (case fontCache store k of
        Some cached \<Rightarrow> (cached, store)
      | None \<Rightarrow>
          let opt = findFontOption k;
              parsed = \<lparr>fontJson = json opt, fontId = length (parseLog store)\<rparr>
          in (parsed,
              store\<lparr>fontCache := (fontCache store)(k \<mapsto> parsed),
                    parseLog := parseLog store @ [k]\<rparr>))"

text \<open>The store after a sequence of \<^verbatim>\<open>getFont\<close> calls.\<close>

definition getFonts :: "string list \<Rightarrow> FontStore \<Rightarrow> FontStore" where
  "getFonts ks store = foldl (\<lambda>st k. snd (getFont k st)) store ks"

subsection \<open>The keyring\<close>

text \<open>
  \<^verbatim>\<open>makeKeyringGeometry\<close>: the radii of the ring and the depth handed to the
  extrusion; \<^verbatim>\<open>segments\<close> keeps its default 64 at every call.
\<close>

record KeyringGeometry =
  outerRadius :: real
  innerRadius :: real
  ringDepth :: real
  curveSegments :: nat

definition makeKeyringGeometry :: "real \<Rightarrow> real \<Rightarrow> real \<Rightarrow> KeyringGeometry" where
  "makeKeyringGeometry outerDiameter innerDiameter depth =
     (let outerRadius = max 0.1 (outerDiameter / 2);
          innerRadius = min (max 0.05 (innerDiameter / 2)) (outerRadius - 0.1)
      in \<lparr>outerRadius = outerRadius, innerRadius = innerRadius,
          ringDepth = max 0.1 depth, curveSegments = 64\<rparr>)"

section \<open>Solids\<close>

text \<open>
  What a mesh of the group is built from: an extrusion of shapes to a depth
  (\<^verbatim>\<open>new THREE.ExtrudeGeometry(shapes, {depth, bevelEnabled: false})\<close>), the keyring
  (the extrusion of the one ring shape that \<^verbatim>\<open>makeKeyringGeometry\<close> draws), or a
  loaded model scaled along z.
\<close>

datatype Geometry =
  ExtrudeGeometry "Shape list" real
| RingGeometry KeyringGeometry
| ScaledGeometry real

text \<open>
  The extrusion engine is the three.js library. Its constructor reads every entry
  of the array as a shape; on an entry that is \<^verbatim>\<open>null\<close> or \<^verbatim>\<open>undefined\<close> it
  throws a \<^verbatim>\<open>TypeError\<close>.
\<close>

datatype Thrown = TypeError

definition newExtrudeGeometry :: "Shape option list \<Rightarrow> real \<Rightarrow> Thrown + Geometry" where
  "newExtrudeGeometry shapes depth =
     (case those shapes of
        None \<Rightarrow> Inl TypeError
      | Some regions \<Rightarrow> Inr (ExtrudeGeometry regions depth))"

text \<open>
  With the bevel disabled and one step, the engine places every point of the
  contour and of the holes of every shape twice: at the local height 0 and at the
  local height \<^verbatim>\<open>depth\<close>. An extrusion of no shape, or of shapes without points,
  has no vertex. The ring shape is a full circle and always has points.
\<close>

definition shapePoints :: "Shape \<Rightarrow> Vector2 list" where
  "shapePoints s = shapePts s @ concat (holes s)"

definition extrudeHeights :: "Shape list \<Rightarrow> real \<Rightarrow> real list" where
  "extrudeHeights shapes depth =
     concat (map (\<lambda>s. concat (map (\<lambda>p. [0, depth]) (shapePoints s))) shapes)"

fun vertexHeights :: "Geometry \<Rightarrow> real list" where
  "vertexHeights (ExtrudeGeometry shapes depth) = extrudeHeights shapes depth"
| "vertexHeights (RingGeometry ring) = [0, ringDepth ring]"
| "vertexHeights (ScaledGeometry depth) = [0, depth]"

text \<open>The number of shapes the extrusion received, and the depth it was given.\<close>

fun shapeCount :: "Geometry \<Rightarrow> nat" where
  "shapeCount (ExtrudeGeometry shapes depth) = length shapes"
| "shapeCount (RingGeometry ring) = 1"
| "shapeCount (ScaledGeometry depth) = 0"

fun extrusionDepth :: "Geometry \<Rightarrow> real option" where
  "extrusionDepth (ExtrudeGeometry shapes depth) = Some depth"
| "extrusionDepth (RingGeometry ring) = Some (ringDepth ring)"
| "extrusionDepth (ScaledGeometry depth) = None"

text \<open>
  The bounding box along z (\<^verbatim>\<open>THREE.Box3\<close>): the least and the greatest height
  over the vertices; a geometry without vertices has an empty box.
\<close>

definition boundsOf :: "real list \<Rightarrow> (real \<times> real) option" where
  "boundsOf hs = (case hs of [] \<Rightarrow> None | h # rest \<Rightarrow> Some (fold min rest h, fold max rest h))"

datatype Role = Base | TextLayer | InitialLayer | InitialBase | Keyring | Border | Top

text \<open>
  A mesh of the group with its placement along the vertical axis; the placement
  in the plane is not modelled. Its bottom, its top and its extent along z are
  read from the bounding box of its geometry.
\<close>

record Mesh =
  role :: Role
  geometry :: Geometry
  position_z :: real

definition zBottom :: "Mesh \<Rightarrow> real option" where
  "zBottom m = map_option (\<lambda>b. position_z m + fst b) (boundsOf (vertexHeights (geometry m)))"

definition zTop :: "Mesh \<Rightarrow> real option" where
  "zTop m = map_option (\<lambda>b. position_z m + snd b) (boundsOf (vertexHeights (geometry m)))"

definition zExtent :: "Mesh \<Rightarrow> real option" where
  "zExtent m = map_option (\<lambda>b. snd b - fst b) (boundsOf (vertexHeights (geometry m)))"

section \<open>Collaborators\<close>

text \<open>
  The library operations the components call. \<open>generateShapes\<close> is
  \<^verbatim>\<open>font.generateShapes(text, size)\<close> for the font parsed from the named JSON, each
  shape already sampled by \<^verbatim>\<open>getPoints\<close>. \<open>Orientation\<close> is
  \<^verbatim>\<open>ClipperLib.Clipper.Orientation\<close>; \<open>ExecuteUnion\<close> and \<open>ExecuteDifference\<close>
  are a Clipper run with closed subject (and clip) paths and the non-zero fill rule,
  \<open>ExecuteOffset\<close> a ClipperOffset run with round joins. \<open>mergeGeometries\<close> tells
  whether \<^verbatim>\<open>BufferGeometryUtils.mergeGeometries\<close> returns a geometry, and
  \<open>exporterByteLength\<close> is the byte length of the buffer that
  \<^verbatim>\<open>STLExporter.parse\<close> returns for the given meshes (\<^const>\<open>None\<close>: no buffer).
  \<open>toUpperCase\<close> and \<open>trim\<close> are the string built-ins.
  For an outline tree without any point the source's bounding box stays at
  plus and minus infinity and the keyring circles carry non-finite coordinates,
  which integer points do not represent: \<open>nonFiniteKeyringTree\<close> is the tree the
  engine returns for them.
\<close>

record Collaborators =
  generateShapes :: "string \<Rightarrow> string \<Rightarrow> real \<Rightarrow> Shape list"
  Orientation :: "IntPoint list \<Rightarrow> bool"
  ExecuteUnion :: "IntPoint list list \<Rightarrow> PolyTree"
  ExecuteDifference :: "IntPoint list list \<Rightarrow> IntPoint list list \<Rightarrow> PolyTree"
  ExecuteOffset :: "IntPoint list list \<Rightarrow> real \<Rightarrow> IntPoint list list"
  nonFiniteKeyringTree :: PolyTree
  mergeGeometries :: "Mesh list \<Rightarrow> bool"
  exporterByteLength :: "Mesh list \<Rightarrow> nat option"
  toUpperCase :: "string \<Rightarrow> string"
  trim :: "string \<Rightarrow> string"

text \<open>
  What the libraries guarantee about their results, as far as the properties below
  depend on it.

  A tree filled by a Clipper run holds polygons: every contour that bounds a fill
  area has at least three points (\<open>polygonTree\<close>, \<open>enginePolygons\<close>). Its outer
  contours have orientation true and its hole contours orientation false
  (\<open>engineWinding\<close>), where the orientation of a path is true when its area is
  not negative: \<^verbatim>\<open>ClipperLib.Clipper.Area\<close> adds
  \<^verbatim>\<open>(poly[j].X + poly[i].X) * (poly[j].Y - poly[i].Y)\<close> over the points \<^verbatim>\<open>i\<close>
  and their predecessors \<^verbatim>\<open>j\<close> and returns minus half the sum, or 0 for fewer
  than three points.

  \<^verbatim>\<open>STLExporter.parse\<close> with \<^verbatim>\<open>binary\<close> set writes an 80 byte header, a 4 byte
  triangle count and 50 bytes for every triangle (\<open>stlLayout\<close>).
\<close>

definition polygonTree :: "PolyTree \<Rightarrow> bool" where
  "polygonTree tree \<longleftrightarrow> list_all (\<lambda>m. 3 \<le> length (m_polygon m)) (fillNodesOfTree tree)"

definition enginePolygons :: "Collaborators \<Rightarrow> bool" where
  "enginePolygons env \<longleftrightarrow>
     (\<forall>paths. polygonTree (ExecuteUnion env paths))
     \<and> (\<forall>subject clip. polygonTree (ExecuteDifference env subject clip))
     \<and> polygonTree (nonFiniteKeyringTree env)"

fun clipperAreaLoop :: "IntPoint \<Rightarrow> IntPoint list \<Rightarrow> int" where
  "clipperAreaLoop pj [] = 0"
| "clipperAreaLoop pj (p # rest) =
     (fst pj + fst p) * (snd pj - snd p) + clipperAreaLoop p rest"

definition clipperArea :: "IntPoint list \<Rightarrow> real" where
  "clipperArea poly =
     (if length poly < 3 then 0 else - real_of_int (clipperAreaLoop (last poly) poly) * 0.5)"

definition clipperOrientation :: "IntPoint list \<Rightarrow> bool" where
  "clipperOrientation poly \<longleftrightarrow> clipperArea poly \<ge> 0"




section \<open>Component state\<close>

text \<open>
  The variables of a designer component that its rebuild and export read:
  whether \<^verbatim>\<open>scene\<close> is set, the children of \<^verbatim>\<open>group\<close> (\<^const>\<open>None\<close> while
  \<^verbatim>\<open>group\<close> is null) and the parameters. The records share the fields that carry
  the same name in several components; \<open>textValue\<close> is the variable \<^verbatim>\<open>text\<close>.
\<close>

record SceneState =
  scene :: bool
  group :: "Mesh list option"
  baseDepth :: real

record TextSceneState = SceneState +
  textSize :: real
  textDepth :: real

record DesignState = TextSceneState +
  textValue :: string
  font :: "Font option"
  outlineOffsetPx :: real
  keyringEnabled :: bool
  keyringOuterSize :: real
  keyringHoleSize :: real
  keyringOffsetX :: real
  keyringOffsetY :: real

record InitialState = DesignState +
  initialDepth :: real
  initialTextSize :: real
  initialFontKey :: string
  keyringDepth :: real

record BasicNameState = TextSceneState +
  topBorderDepth :: real
  textContent :: string
  textFontKey :: string

text \<open>
  The flower designer keeps the two loaded models; here their extent along z after
  \<^verbatim>\<open>centerAndNormalize\<close>, which moves their bottom to height 0.
\<close>

record FlowerState = SceneState +
  baseGeometry :: "real option"
  topGeometry :: "real option"
  topDepth :: real
  charValue :: string
  charDepth :: real
  charSize :: real
  charFontKey :: string

definition TEXT_BASE_EMBED :: real where
  "TEXT_BASE_EMBED = 0.2"

definition BORDER_BASE_EMBED :: real where
  "BORDER_BASE_EMBED = 0.05"

definition FLOWER_TOP_BASE_EMBED :: real where
  "FLOWER_TOP_BASE_EMBED = 0.05"

section \<open>From glyph shapes to engine paths\<close>

text \<open>\<^verbatim>\<open>shapeToPaths\<close>, \<^verbatim>\<open>ensureCW\<close> and the loop that fills \<^verbatim>\<open>inputPaths\<close>.\<close>

definition shapeToPaths :: "Shape \<Rightarrow> IntPoint list \<times> IntPoint list list" where
  "shapeToPaths shape = (toPath (shapePts shape), map toPath (holes shape))"

definition ensureCW :: "Collaborators \<Rightarrow> IntPoint list \<Rightarrow> bool \<Rightarrow> IntPoint list" where
  "ensureCW env path clockwise =
     (let isCW = Orientation env path in if isCW \<noteq> clockwise then rev path else path)"

fun inputPathsLoop ::
  "Collaborators \<Rightarrow> Shape list \<Rightarrow> IntPoint list list \<Rightarrow> IntPoint list list" where
  "inputPathsLoop env [] inputPaths = inputPaths"
| "inputPathsLoop env (s # rest) inputPaths =
     (let (outer, hs) = shapeToPaths s
      in if length outer < 3 then inputPathsLoop env rest inputPaths
         else
           let inputPaths = inputPaths @ [ensureCW env outer True];
               inputPaths =
                 inputPaths @ map (\<lambda>h. ensureCW env h False) (filter (\<lambda>h. \<not> length h < 3) hs)
           in inputPathsLoop env rest inputPaths)"

text \<open>
  The outline tree: the union of the paths, offset first by the outline width
  when that is positive.
\<close>

definition outlineTreeOf :: "Collaborators \<Rightarrow> IntPoint list list \<Rightarrow> real \<Rightarrow> PolyTree" where
  "outlineTreeOf env inputPaths outlineWorld =
     (if outlineWorld > 0
      then ExecuteUnion env (ExecuteOffset env inputPaths (outlineWorld * SCALE))
      else ExecuteUnion env inputPaths)"

section \<open>Text outline designer: the keyring merged into the base\<close>

text \<open>\<^verbatim>\<open>circleToPath\<close>, \<^verbatim>\<open>collectOuterPaths\<close> and \<^verbatim>\<open>getTreeBbox\<close>.\<close>

definition circleToPath ::
  "Collaborators \<Rightarrow> real \<Rightarrow> real \<Rightarrow> real \<Rightarrow> bool \<Rightarrow> nat \<Rightarrow> IntPoint list option" where
  "circleToPath env cx cy r clockwise segs =
     (let path =
            map (\<lambda>i. let t = (real i / real segs) * pi * 2
                     in (round ((cx + r * cos t) * SCALE), round ((cy + r * sin t) * SCALE)))
              [0..<segs]
      in if length path < 3 then None
         else let isCW = Orientation env path
              in Some (if isCW \<noteq> clockwise then rev path else path))"

function (sequential)
  collectOuterPaths :: "PolyNode \<Rightarrow> IntPoint list list \<Rightarrow> IntPoint list list" and
  collectOuterPathsEach :: "PolyNode list \<Rightarrow> IntPoint list list \<Rightarrow> IntPoint list list"
where
  "collectOuterPaths (PolyNode isHole contour childs) out =
     (if isHole then out
      else
        let out = (if length contour \<ge> 3 then out @ [contour] else out)
        in collectOuterPathsEach childs out)"
| "collectOuterPathsEach [] out = out"
| "collectOuterPathsEach (ch # rest) out = collectOuterPathsEach rest (collectOuterPaths ch out)"
  by pat_completeness auto
termination
  by (relation "measure (\<lambda>x. case x of
          Inl (n, _) \<Rightarrow> size n
        | Inr (ns, _) \<Rightarrow> size_list size ns)") auto

text \<open>
  The bounding box over the contour points of every node of the tree. The source
  starts the four bounds at plus and minus infinity; here a tree without points has
  no box.
\<close>

record BBox =
  minX :: int
  maxX :: int
  minY :: int
  maxY :: int

fun nodePoints :: "PolyNode \<Rightarrow> IntPoint list" where
  "nodePoints (PolyNode isHole contour childs) = contour @ concat (map nodePoints childs)"

definition getTreeBbox :: "PolyTree \<Rightarrow> BBox option" where
  "getTreeBbox tree =
     (case concat (map nodePoints tree) of
        [] \<Rightarrow> None
      | p # ps \<Rightarrow>
          Some \<lparr>minX = fold (\<lambda>q m. min m (fst q)) ps (fst p),
                maxX = fold (\<lambda>q m. max m (fst q)) ps (fst p),
                minY = fold (\<lambda>q m. min m (snd q)) ps (snd p),
                maxY = fold (\<lambda>q m. max m (snd q)) ps (snd p)\<rparr>)"

text \<open>The two radii of the keyring, \<^verbatim>\<open>outerR\<close> and \<^verbatim>\<open>innerR\<close>.\<close>

definition keyringRadii :: "real \<Rightarrow> real \<Rightarrow> real \<times> real" where
  "keyringRadii outerSize holeSize =
     (let outerR = max 0.1 (outerSize / 2);
          innerR = min (max 0.05 (holeSize / 2)) (outerR - 0.1)
      in (outerR, innerR))"

text \<open>
  The branch \<^verbatim>\<open>if (keyringEnabled)\<close>: the outline is united with the outer circle
  at the top left corner of its bounding box and the inner circle is cut out.
\<close>

definition keyringBaseTree ::
  "Collaborators \<Rightarrow> 'a DesignState_scheme \<Rightarrow> PolyTree \<Rightarrow> PolyTree" where
  "keyringBaseTree env st outlineTree =
     (case getTreeBbox outlineTree of
        None \<Rightarrow> nonFiniteKeyringTree env
      | Some bbox \<Rightarrow>
          let cornerX = real_of_int (minX bbox) / SCALE;
              cornerY = real_of_int (maxY bbox) / SCALE;
              kx = cornerX + keyringOffsetX st;
              ky = cornerY + keyringOffsetY st;
              (outerR, innerR) = keyringRadii (keyringOuterSize st) (keyringHoleSize st);
              outerCircle = circleToPath env kx ky outerR True 64;
              innerCircle = circleToPath env kx ky innerR False 64
          in case (outerCircle, innerCircle) of
               (Some oc, Some ic) \<Rightarrow>
                 let outlinePaths = collectOuterPathsEach outlineTree [];
                     unionTree = ExecuteUnion env (outlinePaths @ [oc]);
                     diffPaths = collectOuterPathsEach unionTree [];
                     diffTree = ExecuteDifference env diffPaths [ic]
                 in diffTree
             | _ \<Rightarrow> outlineTree)"

section \<open>Rebuilding the meshes\<close>

subsection \<open>Text outline designer\<close>

text \<open>
  \<^verbatim>\<open>rebuildMeshes\<close> returns at once unless \<^verbatim>\<open>scene\<close>, \<^verbatim>\<open>group\<close> and
  \<^verbatim>\<open>font\<close> are set; otherwise the group is cleared first. \<^verbatim>\<open>text || " "\<close> is
  a single space for the empty string. The base and the text geometry are
  extruded one after the other and the two meshes are added to the group after
  that, so an exception of either extrusion leaves the group empty.
  \<open>outlineMeshes\<close> is the exception, if any, and the children of the group when
  the rebuild is left; the result of \<open>rebuildMeshes_outline\<close> is the exception and
  the component after the call.
\<close>

definition outlineMeshes ::
  "Collaborators \<Rightarrow> 'a DesignState_scheme \<Rightarrow> Font \<Rightarrow> Thrown option \<times> Mesh list" where
  "outlineMeshes env st f =
     (let sizePx = max 1 (real_of_int (round (textSize st)));
          shapes =
            generateShapes env (fontJson f)
              (if textValue st = [] then '' '' else textValue st) sizePx;
          inputPaths = inputPathsLoop env shapes [];
          filledTree = ExecuteUnion env inputPaths;
          outlineWorld = max 0 (outlineOffsetPx st) * (sizePx / 60);
          outlineTree = outlineTreeOf env inputPaths outlineWorld;
          baseTree =
            (if keyringEnabled st then keyringBaseTree env st outlineTree else outlineTree);
          baseShapes = polyTreeToThreeShapes_outline baseTree;
          textShapes = polyTreeToThreeShapes_outline filledTree
      in case newExtrudeGeometry baseShapes (max 0.1 (baseDepth st)) of
           Inl e \<Rightarrow> (Some e, [])
         | Inr baseGeo \<Rightarrow>
             (case newExtrudeGeometry textShapes (max 0.1 (textDepth st)) of
                Inl e \<Rightarrow> (Some e, [])
              | Inr textGeo \<Rightarrow>
                  let baseMesh = \<lparr>role = Base, geometry = baseGeo, position_z = 0\<rparr>;
                      textMesh =
                        \<lparr>role = TextLayer, geometry = textGeo,
                         position_z = max 0.1 (baseDepth st) - TEXT_BASE_EMBED\<rparr>
                  in (None, [baseMesh, textMesh])))"

definition rebuildMeshes_outline ::
  "Collaborators \<Rightarrow> 'a DesignState_scheme \<Rightarrow> Thrown option \<times> 'a DesignState_scheme" where
  "rebuildMeshes_outline env st =
     (case (scene st, group st, font st) of
        (True, Some children, Some f) \<Rightarrow>
          let (thrown, meshes) = outlineMeshes env st f
          in (thrown, st\<lparr>group := Some meshes\<rparr>)
      | _ \<Rightarrow> (None, st))"

subsection \<open>Initial designer\<close>

text \<open>
  \<^verbatim>\<open>rebuildMeshes\<close> of the initial designer. The large initial is the first
  character of the text in upper case, or \<^verbatim>\<open>"A"\<close>; its font comes from
  \<^verbatim>\<open>getFont(initialFontKey)\<close>, so the font store is threaded through. The
  geometries are extruded in the order initial, initial base, base, text. The
  initial mesh (at height 0 until the stack is laid out) and the initial base are
  added to the group as soon as they are built, the base and the text after both
  are built, the keyring last: \<open>initialMeshes\<close> is the exception, if any, and the
  children of the group when the rebuild is left.
\<close>

definition initialMeshes ::
  "Collaborators \<Rightarrow> 'a InitialState_scheme \<Rightarrow> Font \<Rightarrow> Font \<Rightarrow> Thrown option \<times> Mesh list" where
  "initialMeshes env st f fontForInitial =
     (let sizePx = max 1 (real_of_int (round (textSize st)));
          shapes =
            generateShapes env (fontJson f)
              (if textValue st = [] then '' '' else textValue st) sizePx;
          inputPaths = inputPathsLoop env shapes [];
          filledTree = ExecuteUnion env inputPaths;
          outlineWorld = max 0 (outlineOffsetPx st) * (sizePx / 60);
          outlineTree = outlineTreeOf env inputPaths outlineWorld;
          baseShapes = polyTreeToThreeShapes_initial outlineTree;
          textShapes = polyTreeToThreeShapes_initial filledTree;
          upper = toUpperCase env (take 1 (textValue st));
          initialCharStr = (if upper = [] then ''A'' else upper);
          initialSize = max 1 (real_of_int (round (initialTextSize st)));
          initialFontShapes =
            generateShapes env (fontJson fontForInitial) initialCharStr initialSize;
          initialPaths = inputPathsLoop env initialFontShapes [];
          initialTree = (if length initialPaths > 0 then ExecuteUnion env initialPaths else []);
          initialThreeShapes = polyTreeToThreeShapes_initial initialTree;
          ringMeshes =
            (if keyringEnabled st then
               [\<lparr>role = Keyring,
                 geometry =
                   RingGeometry
                     (makeKeyringGeometry (max 1 (keyringOuterSize st))
                        (max 0.1 (min (keyringHoleSize st) (keyringOuterSize st - 0.5)))
                        (max 0.1 (keyringDepth st))),
                 position_z = 0\<rparr>]
             else [])
      in if length initialThreeShapes > 0 then
           (case newExtrudeGeometry initialThreeShapes (max 0.1 (initialDepth st)) of
              Inl e \<Rightarrow> (Some e, [])
            | Inr initialGeo \<Rightarrow>
                let initialMesh = \<lparr>role = InitialLayer, geometry = initialGeo, position_z = 0\<rparr>
                in (case newExtrudeGeometry baseShapes (max 0.1 (initialDepth st)) of
                      Inl e \<Rightarrow> (Some e, [initialMesh])
                    | Inr initialBaseGeo \<Rightarrow>
                        let initialBaseMesh =
                              \<lparr>role = InitialBase, geometry = initialBaseGeo, position_z = 0.0\<rparr>
                        in (case newExtrudeGeometry baseShapes (max 0.1 (baseDepth st)) of
                              Inl e \<Rightarrow> (Some e, [initialMesh, initialBaseMesh])
                            | Inr baseGeo \<Rightarrow>
                                (case newExtrudeGeometry textShapes (max 0.1 (textDepth st)) of
                                   Inl e \<Rightarrow> (Some e, [initialMesh, initialBaseMesh])
                                 | Inr textGeo \<Rightarrow>
                                     (None,
                                      [initialMesh\<lparr>position_z := 0.005\<rparr>, initialBaseMesh,
                                       \<lparr>role = Base, geometry = baseGeo,
                                        position_z = max 0.1 (initialDepth st) + 0.01\<rparr>,
                                       \<lparr>role = TextLayer, geometry = textGeo,
                                        position_z =
                                          max 0.1 (initialDepth st) + max 0.1 (baseDepth st) + 0.02\<rparr>]
                                      @ ringMeshes)))))
         else
           (case newExtrudeGeometry baseShapes (max 0.1 (baseDepth st)) of
              Inl e \<Rightarrow> (Some e, [])
            | Inr baseGeo \<Rightarrow>
                (case newExtrudeGeometry textShapes (max 0.1 (textDepth st)) of
                   Inl e \<Rightarrow> (Some e, [])
                 | Inr textGeo \<Rightarrow>
                     (None,
                      [\<lparr>role = Base, geometry = baseGeo, position_z = 0\<rparr>,
                       \<lparr>role = TextLayer, geometry = textGeo,
                        position_z = max 0.1 (baseDepth st) - 0.02\<rparr>]
                      @ ringMeshes))))"

definition rebuildMeshes_initial ::
  "Collaborators \<Rightarrow> 'a InitialState_scheme \<Rightarrow> FontStore
     \<Rightarrow> Thrown option \<times> 'a InitialState_scheme \<times> FontStore" where
  "rebuildMeshes_initial env st store =
     (case (scene st, group st, font st) of
        (True, Some children, Some f) \<Rightarrow>
          let (fontForInitial, store) = getFont (initialFontKey st) store;
              (thrown, meshes) = initialMeshes env st f fontForInitial
          in (thrown, st\<lparr>group := Some meshes\<rparr>, store)
      | _ \<Rightarrow> (None, st, store))"

text \<open>
  The reactive effects of the initial designer. The component is mounted with
  scene, group and font set and rebuilds at once; after that every change of a
  parameter runs an effect that rebuilds (a change of the font key sets the font
  and rebuilds). An exception ends the effect. In between, other components may
  load fonts through \<^verbatim>\<open>getFont\<close>. \<open>reachable_initial\<close> holds of the component
  states and font stores that arise this way.
\<close>

definition afterEffects ::
  "Collaborators \<Rightarrow> 'a InitialState_scheme \<Rightarrow> FontStore \<Rightarrow> 'a InitialState_scheme \<times> FontStore"
  where
  "afterEffects env st store = snd (rebuildMeshes_initial env st store)"

inductive reachable_initial ::
  "Collaborators \<Rightarrow> 'a InitialState_scheme \<times> FontStore \<Rightarrow> bool" for env :: Collaborators
where
  mounted:
    "scene st \<Longrightarrow> group st = Some [] \<Longrightarrow> font st = Some f
     \<Longrightarrow> reachable_initial env (afterEffects env st store)"
| changed:
    "reachable_initial env (st, store) \<Longrightarrow> scene st' \<Longrightarrow> group st' = group st
     \<Longrightarrow> font st' = Some f
     \<Longrightarrow> reachable_initial env (afterEffects env st' (getFonts ks store))"
| fontsLoaded:
    "reachable_initial env (st, store) \<Longrightarrow> reachable_initial env (st, getFonts ks store)"

subsection \<open>Name tag designer\<close>

text \<open>
  The polygon stage of the name tag (rounded rectangle, disc and hole for the base;
  border frame, disc and holes for the top layer) ends in two shapes, either of
  which may be missing; the rebuild is modelled from them on. Without a base shape
  the rebuild returns after clearing the group.
\<close>

record BasicNamePolygons =
  mergedShape :: "Shape option"
  topMergedShape :: "Shape option"

definition rebuildMeshes_basicName ::
  "Collaborators \<Rightarrow> BasicNamePolygons \<Rightarrow> 'a BasicNameState_scheme \<Rightarrow> FontStore
     \<Rightarrow> 'a BasicNameState_scheme \<times> FontStore" where
  "rebuildMeshes_basicName env polys st store =
     (case (scene st, group st) of
        (True, Some children) \<Rightarrow>
          (case mergedShape polys of
             None \<Rightarrow> (st\<lparr>group := Some []\<rparr>, store)
           | Some merged \<Rightarrow>
               let baseMesh =
                     \<lparr>role = Base,
                      geometry = ExtrudeGeometry [merged] (max 0.1 (baseDepth st)),
                      position_z = 0\<rparr>;
                   topMeshes =
                     (case topMergedShape polys of
                        None \<Rightarrow> []
                      | Some topShape \<Rightarrow>
                          [\<lparr>role = Border,
                            geometry = ExtrudeGeometry [topShape] (max 0.1 (topBorderDepth st)),
                            position_z = baseDepth st - BORDER_BASE_EMBED\<rparr>]);
                   textToRender = trim env (textContent st);
                   (textMeshes, store) =
                     (if textToRender \<noteq> [] then
                        let (f, store) = getFont (textFontKey st) store;
                            shapes = generateShapes env (fontJson f) textToRender (textSize st)
                        in if length shapes > 0
                           then ([\<lparr>role = TextLayer,
                                   geometry = ExtrudeGeometry shapes (max 0.01 (textDepth st)),
                                   position_z = baseDepth st - TEXT_BASE_EMBED\<rparr>], store)
                           else ([], store)
                      else ([], store))
               in (st\<lparr>group := Some ([baseMesh] @ topMeshes @ textMeshes)\<rparr>, store))
      | _ \<Rightarrow> (st, store))"

subsection \<open>Flower designer\<close>

text \<open>
  \<^verbatim>\<open>scaleGeometryToDepth\<close> on the extent along z: a model thicker than 0.001 is
  scaled to the target depth, which is at least 0.01.
\<close>

definition scaleGeometryToDepth :: "real \<Rightarrow> real \<Rightarrow> real" where
  "scaleGeometryToDepth currentDepth targetDepth =
     (if currentDepth > 0.001
      then currentDepth * (max 0.01 targetDepth / currentDepth)
      else currentDepth)"

definition rebuildMeshes_flower ::
  "Collaborators \<Rightarrow> 'a FlowerState_scheme \<Rightarrow> FontStore \<Rightarrow> 'a FlowerState_scheme \<times> FontStore"
  where
  "rebuildMeshes_flower env st store =
     (case (scene st, group st, baseGeometry st, topGeometry st) of
        (True, Some children, Some baseGeo, Some topGeo) \<Rightarrow>
          let baseMesh =
                \<lparr>role = Base,
                 geometry = ScaledGeometry (scaleGeometryToDepth baseGeo (baseDepth st)),
                 position_z = 0\<rparr>;
              topMesh =
                \<lparr>role = Top,
                 geometry = ScaledGeometry (scaleGeometryToDepth topGeo (topDepth st)),
                 position_z = max 0.01 (baseDepth st) - FLOWER_TOP_BASE_EMBED\<rparr>;
              charToRender = take 1 (trim env (charValue st));
              (textMeshes, store) =
                (if charToRender \<noteq> [] then
                   let (f, store) = getFont (charFontKey st) store;
                       shapes = generateShapes env (fontJson f) charToRender (charSize st)
                   in if length shapes > 0 then
                        let charGeo = ExtrudeGeometry shapes (max 0.01 (charDepth st));
                            textZ =
                              max 0.01 (baseDepth st) - FLOWER_TOP_BASE_EMBED
                                + max 0.01 (topDepth st) + 0.01;
                            textMesh1 = \<lparr>role = TextLayer, geometry = charGeo, position_z = textZ\<rparr>;
                            textMesh2 = \<lparr>role = TextLayer, geometry = charGeo, position_z = textZ\<rparr>
                        in ([textMesh1, textMesh2], store)
                      else ([], store)
                 else ([], store))
          in (st\<lparr>group := Some ([baseMesh, topMesh] @ textMeshes)\<rparr>, store)
      | _ \<Rightarrow> (st, store))"

section \<open>Reading a composite\<close>

text \<open>The children of the group; none while the group is null.\<close>

definition groupMeshes :: "Mesh list option \<Rightarrow> Mesh list" where
  "groupMeshes g = (case g of Some children \<Rightarrow> children | None \<Rightarrow> [])"

text \<open>The meshes of a group that play a given role.\<close>

definition meshesWithRole :: "Role \<Rightarrow> Mesh list option \<Rightarrow> Mesh list" where
  "meshesWithRole r g = filter (\<lambda>m. role m = r) (groupMeshes g)"

text \<open>
  Four views of a group: the bottom and top height of every mesh, the extent along
  z of every mesh, the depth every extrusion was given, and the number of shapes
  every extrusion received.
\<close>

definition zProfile :: "Mesh list option \<Rightarrow> (Role \<times> real option \<times> real option) list" where
  "zProfile g = map (\<lambda>m. (role m, zBottom m, zTop m)) (groupMeshes g)"

definition zExtents :: "Mesh list option \<Rightarrow> (Role \<times> real option) list" where
  "zExtents g = map (\<lambda>m. (role m, zExtent m)) (groupMeshes g)"

definition extrusionDepths :: "Mesh list option \<Rightarrow> (Role \<times> real option) list" where
  "extrusionDepths g = map (\<lambda>m. (role m, extrusionDepth (geometry m))) (groupMeshes g)"

definition extrusionInputs :: "Mesh list option \<Rightarrow> (Role \<times> nat) list" where
  "extrusionInputs g = map (\<lambda>m. (role m, shapeCount (geometry m))) (groupMeshes g)"

section \<open>Export\<close>

text \<open>
  What an export does, in order: the calls it makes on the application shell, on
  its own rebuild and on the exporter. \<open>Serialize\<close> carries the meshes handed to
  the exporter and \<open>Download\<close> the byte length of the buffer handed to
  \<^verbatim>\<open>downloadBlob\<close>; \<open>ExportError\<close> is the message stored in \<^verbatim>\<open>exportError\<close>,
  and \<open>Uncaught\<close> an exception that ends the export.
\<close>

datatype Event =
  RequestLogin
| CheckLicense
| OpenLicenseModal
| Rebuild
| Serialize "Mesh list"
| Download "nat option"
| ShowThankYou
| ExportError string
| Uncaught Thrown

text \<open>
  Who asks for the export and what \<^verbatim>\<open>checkLicenseStatus\<close> answers. The component
  state an export works on is the state at the moment the awaited answer arrives.
\<close>

record ExportRequest =
  user :: bool
  canExport :: bool
  trial :: bool

definition thankYou :: "ExportRequest \<Rightarrow> Event list" where
  "thankYou req = (if trial req then [ShowThankYou] else [])"

text \<open>
  The tail shared by the outline and the flower designer: every child of the
  group is a mesh; the geometries are merged, welded, serialized, and the buffer
  is downloaded when it has at least 84 bytes.
\<close>

definition serializeGuarded :: "Collaborators \<Rightarrow> ExportRequest \<Rightarrow> Mesh list \<Rightarrow> Event list" where
  "serializeGuarded env req geometries =
     (if length geometries = 0 then []
      else if \<not> mergeGeometries env geometries then []
      else
        [Serialize geometries]
        @ (case exporterByteLength env geometries of
             Some byteLength \<Rightarrow> if byteLength \<ge> 84 then [Download (Some byteLength)] else []
           | None \<Rightarrow> [])
        @ thankYou req)"

text \<open>
  The text outline designer calls its rebuild after the license check, outside any
  \<^verbatim>\<open>try\<close>: an exception of the rebuild ends the export.
\<close>

definition exportSTL_outline ::
  "Collaborators \<Rightarrow> ExportRequest \<Rightarrow> 'a DesignState_scheme
     \<Rightarrow> Event list \<times> 'a DesignState_scheme" where
  "exportSTL_outline env req st =
     (if group st = None \<or> \<not> scene st then ([], st)
      else if \<not> user req then ([RequestLogin], st)
      else if \<not> canExport req then ([CheckLicense, OpenLicenseModal], st)
      else
        let (thrown, st) = rebuildMeshes_outline env st
        in case thrown of
             Some e \<Rightarrow> ([CheckLicense, Rebuild, Uncaught e], st)
           | None \<Rightarrow>
               let geometries = groupMeshes (group st)
               in ([CheckLicense, Rebuild] @ serializeGuarded env req geometries, st))"

definition exportSTL_flower ::
  "Collaborators \<Rightarrow> ExportRequest \<Rightarrow> 'a FlowerState_scheme \<Rightarrow> FontStore
     \<Rightarrow> Event list \<times> 'a FlowerState_scheme \<times> FontStore" where
  "exportSTL_flower env req st store =
     (if group st = None \<or> \<not> scene st then ([], st, store)
      else if \<not> user req then ([RequestLogin], st, store)
      else if \<not> canExport req then ([CheckLicense, OpenLicenseModal], st, store)
      else
        let (st, store) = rebuildMeshes_flower env st store;
            geometries = groupMeshes (group st)
        in ([CheckLicense, Rebuild] @ serializeGuarded env req geometries, st, store))"

text \<open>
  The name tag designer checks the user and the license first and reports every
  failure after that through \<^verbatim>\<open>exportError\<close>; it does not weld.
\<close>

definition exportSTL_basicName ::
  "Collaborators \<Rightarrow> BasicNamePolygons \<Rightarrow> ExportRequest \<Rightarrow> 'a BasicNameState_scheme \<Rightarrow> FontStore
     \<Rightarrow> Event list \<times> 'a BasicNameState_scheme \<times> FontStore" where
  "exportSTL_basicName env polys req st store =
     (if \<not> user req then ([RequestLogin], st, store)
      else if \<not> canExport req then ([CheckLicense, OpenLicenseModal], st, store)
      else if group st = None \<or> \<not> scene st
      then ([CheckLicense, ExportError ''Scene not ready''], st, store)
      else
        let (st, store) = rebuildMeshes_basicName env polys st store;
            geometries = groupMeshes (group st)
        in if length geometries = 0
           then ([CheckLicense, Rebuild, ExportError ''No geometry to export''], st, store)
           else if \<not> mergeGeometries env geometries
           then ([CheckLicense, Rebuild, ExportError ''Failed to merge geometry''], st, store)
           else
             (case exporterByteLength env geometries of
                Some byteLength \<Rightarrow>
                  if byteLength < 84
                  then ([CheckLicense, Rebuild, Serialize geometries,
                         ExportError ''Export produced no geometry''], st, store)
                  else ([CheckLicense, Rebuild, Serialize geometries, Download (Some byteLength)]
                        @ thankYou req, st, store)
              | None \<Rightarrow>
                  ([CheckLicense, Rebuild, Serialize geometries,
                    ExportError ''Export produced no geometry''], st, store)))"

text \<open>
  The initial designer hands the group as it stands to the exporter and downloads
  whatever comes back.
\<close>

definition exportSTL_initial ::
  "Collaborators \<Rightarrow> ExportRequest \<Rightarrow> 'a InitialState_scheme
     \<Rightarrow> Event list \<times> 'a InitialState_scheme" where
  "exportSTL_initial env req st =
     (case group st of
        None \<Rightarrow> ([], st)
      | Some children \<Rightarrow>
          if \<not> user req then ([RequestLogin], st)
          else if \<not> canExport req then ([CheckLicense, OpenLicenseModal], st)
          else
            ([CheckLicense, Serialize children, Download (exporterByteLength env children)]
             @ thankYou req, st))"

text \<open>The events of an export that hand a file to the browser.\<close>

fun isDownload :: "Event \<Rightarrow> bool" where
  "isDownload (Download n) = True"
| "isDownload e = False"

section \<open>Example inputs\<close>

text \<open>
  Stand-ins for the collaborators and component states on which the model is run:
  a font whose space glyph has no outline and which draws every other text as one
  triangle, an engine that returns every subject path of at least three points as
  a root of the tree and leaves paths unchanged when offsetting, an exporter that writes the 84 byte
  header and 50 bytes per mesh. The states carry the default settings of the
  components.
\<close>

definition triangleShape :: Shape where
  "triangleShape = \<lparr>shapePts = [(0, 0), (10, 0), (0, 10)], holes = []\<rparr>"

definition exampleEnv :: Collaborators where
  "exampleEnv =
     \<lparr>generateShapes = (\<lambda>fontData t sizePx. if t = '' '' then [] else [triangleShape]),
      Orientation = (\<lambda>path. True),
      ExecuteUnion =
        (\<lambda>paths. map (\<lambda>p. PolyNode False p []) (filter (\<lambda>p. 3 \<le> length p) paths)),
      ExecuteDifference =
        (\<lambda>subject clip. map (\<lambda>p. PolyNode False p []) (filter (\<lambda>p. 3 \<le> length p) subject)),
      ExecuteOffset = (\<lambda>paths delta. paths),
      nonFiniteKeyringTree = [],
      mergeGeometries = (\<lambda>meshes. True),
      exporterByteLength = (\<lambda>meshes. Some (84 + 50 * length meshes)),
      toUpperCase = (\<lambda>str. str),
      trim = (\<lambda>str. str)\<rparr>"

definition exampleFont :: Font where
  "exampleFont = \<lparr>fontJson = ''titanOneJson'', fontId = 0\<rparr>"

definition exampleOutlineState :: DesignState where
  "exampleOutlineState =
     \<lparr>scene = True, group = Some [], baseDepth = 3, textSize = 13, textDepth = 2,
      textValue = ''Name'', font = Some exampleFont, outlineOffsetPx = 10,
      keyringEnabled = False, keyringOuterSize = 8, keyringHoleSize = 4,
      keyringOffsetX = 0, keyringOffsetY = 0\<rparr>"

definition exampleInitialState :: InitialState where
  "exampleInitialState =
     \<lparr>scene = True, group = Some [], baseDepth = 1, textSize = 13, textDepth = 1,
      textValue = ''Name'', font = Some exampleFont, outlineOffsetPx = 10,
      keyringEnabled = True, keyringOuterSize = 8, keyringHoleSize = 4,
      keyringOffsetX = 0, keyringOffsetY = 0,
      initialDepth = 10, initialTextSize = 39, initialFontKey = ''Milkyway_Regular'',
      keyringDepth = 4\<rparr>"

definition examplePolygons :: BasicNamePolygons where
  "examplePolygons = \<lparr>mergedShape = Some triangleShape, topMergedShape = Some triangleShape\<rparr>"

definition exampleBasicNameState :: BasicNameState where
  "exampleBasicNameState =
     \<lparr>scene = True, group = Some [], baseDepth = 2, textSize = 8, textDepth = 1,
      topBorderDepth = 1, textContent = ''Name'', textFontKey = ''Titan One_Regular''\<rparr>"

definition exampleFlowerState :: FlowerState where
  "exampleFlowerState =
     \<lparr>scene = True, group = Some [], baseDepth = 1,
      baseGeometry = Some 2, topGeometry = Some 2, topDepth = 1,
      charValue = ''A'', charDepth = 1, charSize = 21, charFontKey = ''Titan One_Regular''\<rparr>"

definition exampleRequest :: ExportRequest where
  "exampleRequest = \<lparr>user = True, canExport = True, trial = False\<rparr>"

text \<open>The initial designer after it was mounted with the default settings.\<close>

definition mountedInitialState :: InitialState where
  "mountedInitialState = fst (afterEffects exampleEnv exampleInitialState emptyFontStore)"

definition mountedFontStore :: FontStore where
  "mountedFontStore = snd (afterEffects exampleEnv exampleInitialState emptyFontStore)"

text \<open>
  A polygon tree with an island inside a hole inside an island inside a hole, wound
  as the engine winds its trees, and a tree wound the other way round.
\<close>

definition nestedTree :: PolyTree where
  "nestedTree =
     [PolyNode False [(0, 0), (9000, 0), (9000, 9000), (0, 9000)]
        [PolyNode True [(1000, 1000), (1000, 8000), (8000, 8000), (8000, 1000)]
           [PolyNode False [(2000, 2000), (7000, 2000), (7000, 7000), (2000, 7000)]
              [PolyNode True [(3000, 3000), (3000, 6000), (6000, 6000), (6000, 3000)]
                 [PolyNode False [(4000, 4000), (5000, 4000), (5000, 5000), (4000, 5000)] []]]]]]"

definition reversedTree :: PolyTree where
  "reversedTree =
     [PolyNode False [(0, 0), (0, 1000), (1000, 0)]
        [PolyNode True [(100, 100), (200, 100), (100, 200)] []]]"

section \<open>Invariants used in the proofs\<close>


definition woundForExtrusion :: "Shape \<Rightarrow> bool" where
  "woundForExtrusion s \<longleftrightarrow> \<not> isClockWise (shapePts s) \<and> list_all isClockWise (holes s)"

text \<open>
  The font store is consistent when every cached font was parsed from the option
  its key selects, and the parse log lists exactly the cached keys, each once.
\<close>

definition storeInv :: "FontStore \<Rightarrow> bool" where
  "storeInv s \<longleftrightarrow>
     (\<forall>k f. fontCache s k = Some f \<longrightarrow> fontJson f = json (findFontOption k))
     \<and> distinct (parseLog s) \<and> set (parseLog s) = dom (fontCache s)"

abbreviation regionsOfNodes :: "PolyNode list \<Rightarrow> Shape option list" where
  "regionsOfNodes ns \<equiv> map (\<lambda>n. Some (regionOf n)) (concat (map fillNodes ns))"

abbreviation rawRegionsOfNodes :: "PolyNode list \<Rightarrow> Shape option list" where
  "rawRegionsOfNodes ns \<equiv> map (\<lambda>n. Some (rawRegionOf n)) (concat (map fillNodes ns))"




text \<open>Every region of an output array is wound for the extrusion engine.\<close>

definition allWound :: "Shape option list \<Rightarrow> bool" where
  "allWound out \<longleftrightarrow>
     list_all (\<lambda>r. case r of None \<Rightarrow> True | Some s \<Rightarrow> woundForExtrusion s) out"

text \<open>
  A component of the initial designer is settled when its group holds what a
  rebuild from its parameters and the cached font of the initial leaves there.
\<close>

definition settled_initial ::
  "Collaborators \<Rightarrow> 'a InitialState_scheme \<Rightarrow> FontStore \<Rightarrow> bool" where
  "settled_initial env st store \<longleftrightarrow>
     scene st
     \<and> (\<exists>f fontForInitial.
           font st = Some f \<and> fontCache store (initialFontKey st) = Some fontForInitial
           \<and> group st = Some (snd (initialMeshes env st f fontForInitial)))"

chapter \<open>Properties\<close>

section \<open>The keyring radii\<close>

text \<open>
  Claim C6, as stated, fails in the text outline designer for a requested outer
  size of at most 0.2: the outer radius is then 0.1 and the hole radius is clamped
  to 0, not to a positive value.
\<close>

theorem keyring_inner_radius_zero:
  "keyringRadii 0.2 4 = (0.1, 0) \<and> \<not> (0 < snd (keyringRadii 0.2 4))"
  by (simp add: keyringRadii_def Let_def)

text \<open>
  Claim C6, amended. For every requested outer size and hole size the text
  outline designer and \<^verbatim>\<open>makeKeyringGeometry\<close> compute the same radii: the outer
  radius is the larger of 0.1 and half the outer size, the hole radius is the
  smaller of max(0.05, half the hole size) and the outer radius minus 0.1. The
  hole radius is never negative and always strictly below the outer radius; it is
  the outer radius minus 0.1 whenever the requested hole radius meets or exceeds
  the outer radius; and it is 0 exactly when the requested outer size is at most
  0.2. As the initial designer calls \<^verbatim>\<open>makeKeyringGeometry\<close>, with an outer size
  raised to at least 1 and a hole size raised to at least 0.1, the hole radius is
  strictly between 0 and the outer radius.
\<close>

theorem keyring_radii_clamped:
  fixes outerSize holeSize depth :: real
  defines "ring \<equiv> makeKeyringGeometry outerSize holeSize depth"
  defines "ringOfInitial \<equiv>
     makeKeyringGeometry (max 1 outerSize) (max 0.1 (min holeSize (outerSize - 0.5)))
       (max 0.1 depth)"
  shows "keyringRadii outerSize holeSize = (outerRadius ring, innerRadius ring)
   \<and> outerRadius ring = max 0.1 (outerSize / 2)
   \<and> innerRadius ring = min (max 0.05 (holeSize / 2)) (outerRadius ring - 0.1)
   \<and> 0 \<le> innerRadius ring \<and> innerRadius ring < outerRadius ring
   \<and> (outerRadius ring \<le> holeSize / 2 \<longrightarrow> innerRadius ring = outerRadius ring - 0.1)
   \<and> (innerRadius ring = 0 \<longleftrightarrow> outerSize \<le> 0.2)
   \<and> 0 < innerRadius ringOfInitial \<and> innerRadius ringOfInitial < outerRadius ringOfInitial"
  unfolding ring_def ringOfInitial_def
  by (auto simp: keyringRadii_def makeKeyringGeometry_def Let_def min_def max_def)

theorem keyring_radii_clamped_witness:
  "outerRadius (makeKeyringGeometry 8 10 1) \<le> 10 / 2
   \<and> keyringRadii 8 10 = (4, 3.9)
   \<and> innerRadius (makeKeyringGeometry 8 10 1) = 3.9
   \<and> outerRadius (makeKeyringGeometry 8 10 1) = 4
   \<and> innerRadius (makeKeyringGeometry (max 1 8) (max 0.1 (min 10 (8 - 0.5))) (max 0.1 1)) = 3.75"
  using keyring_radii_clamped[of 8 10 1]
  by (simp add: keyringRadii_def makeKeyringGeometry_def Let_def)

section \<open>Shape reconstruction\<close>

subsection \<open>Islands\<close>

lemma islandsIn_Nil [simp]: "islandsIn [] = []"
  by (simp add: islandsIn_def)

lemma islandsIn_Cons [simp]:
  "islandsIn (ch # rest) =
     (if m_IsHole ch then filter (\<lambda>hk. \<not> m_IsHole hk) (m_Childs ch) else []) @ islandsIn rest"
  by (simp add: islandsIn_def)

lemma holesOf_Nil [simp]: "holesOf [] = []"
  by (simp add: holesOf_def)

lemma holesOf_Cons [simp]:
  "holesOf (ch # rest) =
     (if m_IsHole ch \<and> 3 \<le> length (m_polygon ch)
      then [ensureCWHole (map toVec2 (m_polygon ch))] else []) @ holesOf rest"
  by (simp add: holesOf_def)

lemma rawHolesOf_Nil [simp]: "rawHolesOf [] = []"
  by (simp add: rawHolesOf_def)

lemma rawHolesOf_Cons [simp]:
  "rawHolesOf (ch # rest) =
     (if m_IsHole ch \<and> 3 \<le> length (m_polygon ch)
      then [map toVec2 (m_polygon ch)] else []) @ rawHolesOf rest"
  by (simp add: rawHolesOf_def)

text \<open>
  On a tree whose fill contours have at least three points, each of the three
  loops appends exactly the regions of the fill nodes it walks over.
\<close>

lemma build_loops_outline:
  "(\<forall>m \<in> set (fillNodes n). 3 \<le> length (m_polygon m)) \<longrightarrow>
     buildFromOuter_outline n out = (Some (regionOf n), out @ regionsOfNodes (islandsIn (m_Childs n)))"
  "(\<forall>m \<in> set (concat (map fillNodes (islandsIn chs))). 3 \<le> length (m_polygon m)) \<longrightarrow>
     childrenLoop_outline chs shape out1 =
       (shape\<lparr>holes := holes shape @ holesOf chs\<rparr>, out1 @ regionsOfNodes (islandsIn chs))"
  "(\<forall>m \<in> set (concat (map fillNodes (filter (\<lambda>hk. \<not> m_IsHole hk) kids))). 3 \<le> length (m_polygon m)) \<longrightarrow>
     holeKidsLoop_outline kids out2 = out2 @ regionsOfNodes (filter (\<lambda>hk. \<not> m_IsHole hk) kids)"
proof (induction n out and chs shape out1 and kids out2
        rule: buildFromOuter_outline_childrenLoop_outline_holeKidsLoop_outline.induct)
  case (1 isHole contour children shapesOut)
  show ?case
  proof
    assume wf: "\<forall>m \<in> set (fillNodes (PolyNode isHole contour children)). 3 \<le> length (m_polygon m)"
    have len: "3 \<le> length contour"
      using wf by (subst (asm) fillNodes.simps) simp
    have sub: "\<forall>m \<in> set (concat (map fillNodes (islandsIn children))). 3 \<le> length (m_polygon m)"
      using wf by (subst (asm) fillNodes.simps) simp
    from len have nlt: "\<not> length contour < 3" by simp
    show "buildFromOuter_outline (PolyNode isHole contour children) shapesOut =
       (Some (regionOf (PolyNode isHole contour children)),
        shapesOut @ regionsOfNodes (islandsIn (m_Childs (PolyNode isHole contour children))))"
      using "1.IH"[OF nlt refl refl refl] sub
      by (simp add: Let_def regionOf_def ensureCCW_def nlt)
  qed
next
  case (2 shape shapesOut)
  show ?case by simp
next
  case (3 isHole holeContour holeKids rest shape shapesOut)
  show ?case
  proof (cases isHole)
    case False
    with "3.IH"(1) show ?thesis by simp
  next
    case True
    show ?thesis
    proof
      assume wf: "\<forall>m \<in> set (concat (map fillNodes (islandsIn (PolyNode isHole holeContour holeKids # rest)))). 3 \<le> length (m_polygon m)"
      have wfk: "\<forall>m \<in> set (concat (map fillNodes (filter (\<lambda>hk. \<not> m_IsHole hk) holeKids))). 3 \<le> length (m_polygon m)"
        using wf True by simp
      have wfr: "\<forall>m \<in> set (concat (map fillNodes (islandsIn rest))). 3 \<le> length (m_polygon m)"
        using wf by simp
      have nn: "\<not> \<not> isHole" using True by simp
      note k = mp[OF "3.IH"(2)[OF nn refl] wfk]
      note r = mp[OF "3.IH"(3)[OF nn refl refl] wfr]
      show "childrenLoop_outline (PolyNode isHole holeContour holeKids # rest) shape shapesOut =
         (shape\<lparr>holes := holes shape @ holesOf (PolyNode isHole holeContour holeKids # rest)\<rparr>,
          shapesOut @ regionsOfNodes (islandsIn (PolyNode isHole holeContour holeKids # rest)))"
        using True k r by (simp add: Let_def ensureCWHole_def)
    qed
  qed
next
  case (4 shapesOut)
  show ?case by simp
next
  case (5 hk rest shapesOut)
  show ?case
  proof (cases "m_IsHole hk")
    case True
    with "5.IH"(3) show ?thesis by simp
  next
    case False
    show ?thesis
    proof
      assume wf: "\<forall>m \<in> set (concat (map fillNodes (filter (\<lambda>hk. \<not> m_IsHole hk) (hk # rest)))). 3 \<le> length (m_polygon m)"
      have wfh: "\<forall>m \<in> set (fillNodes hk). 3 \<le> length (m_polygon m)"
        using wf False by simp
      have wfr: "\<forall>m \<in> set (concat (map fillNodes (filter (\<lambda>hk. \<not> m_IsHole hk) rest))). 3 \<le> length (m_polygon m)"
        using wf False by simp
      note b = mp[OF "5.IH"(1)[OF False] wfh]
      note r = mp[OF "5.IH"(2)[OF False refl b[symmetric]] wfr]
      have fn: "fillNodes hk = concat (map fillNodes (islandsIn (m_Childs hk))) @ [hk]"
        by (rule fillNodes.simps)
      show "holeKidsLoop_outline (hk # rest) shapesOut =
          shapesOut @ regionsOfNodes (filter (\<lambda>hk. \<not> m_IsHole hk) (hk # rest))"
        using False b r by (simp add: fn)
    qed
  qed
qed

lemma rootsLoop_outline_regions:
  "(\<forall>m \<in> set (fillNodesOfTree tree). 3 \<le> length (m_polygon m)) \<Longrightarrow>
     rootsLoop_outline tree out = out @ map (\<lambda>n. Some (regionOf n)) (fillNodesOfTree tree)"
proof (induction tree arbitrary: out)
  case Nil
  then show ?case by (simp add: fillNodesOfTree_def)
next
  case (Cons n tree)
  show ?case
  proof (cases "m_IsHole n")
    case True
    with Cons show ?thesis by (simp add: fillNodesOfTree_def)
  next
    case False
    have wfh: "\<forall>m \<in> set (fillNodes n). 3 \<le> length (m_polygon m)"
      using Cons.prems False by (simp add: fillNodesOfTree_def)
    have wfr: "\<forall>m \<in> set (fillNodesOfTree tree). 3 \<le> length (m_polygon m)"
      using Cons.prems False by (simp add: fillNodesOfTree_def)
    note b = mp[OF build_loops_outline(1) wfh]
    have fn: "fillNodes n = concat (map fillNodes (islandsIn (m_Childs n))) @ [n]"
      by (rule fillNodes.simps)
    show ?thesis
      using False b Cons.IH[OF wfr] by (simp add: fillNodesOfTree_def fn)
  qed
qed


lemma build_loops_initial:
  "(\<forall>m \<in> set (fillNodes n). 3 \<le> length (m_polygon m)) \<longrightarrow>
     buildFromOuter_initial n out = (Some (rawRegionOf n), out @ rawRegionsOfNodes (islandsIn (m_Childs n)))"
  "(\<forall>m \<in> set (concat (map fillNodes (islandsIn chs))). 3 \<le> length (m_polygon m)) \<longrightarrow>
     childrenLoop_initial chs shape out1 =
       (shape\<lparr>holes := holes shape @ rawHolesOf chs\<rparr>, out1 @ rawRegionsOfNodes (islandsIn chs))"
  "(\<forall>m \<in> set (concat (map fillNodes (filter (\<lambda>hk. \<not> m_IsHole hk) kids))). 3 \<le> length (m_polygon m)) \<longrightarrow>
     holeKidsLoop_initial kids out2 = out2 @ rawRegionsOfNodes (filter (\<lambda>hk. \<not> m_IsHole hk) kids)"
proof (induction n out and chs shape out1 and kids out2
        rule: buildFromOuter_initial_childrenLoop_initial_holeKidsLoop_initial.induct)
  case (1 isHole contour children shapesOut)
  show ?case
  proof
    assume wf: "\<forall>m \<in> set (fillNodes (PolyNode isHole contour children)). 3 \<le> length (m_polygon m)"
    have len: "3 \<le> length contour"
      using wf by (subst (asm) fillNodes.simps) simp
    have sub: "\<forall>m \<in> set (concat (map fillNodes (islandsIn children))). 3 \<le> length (m_polygon m)"
      using wf by (subst (asm) fillNodes.simps) simp
    from len have nlt: "\<not> length contour < 3" by simp
    show "buildFromOuter_initial (PolyNode isHole contour children) shapesOut =
       (Some (rawRegionOf (PolyNode isHole contour children)),
        shapesOut @ rawRegionsOfNodes (islandsIn (m_Childs (PolyNode isHole contour children))))"
      using "1.IH"[OF nlt refl] sub
      by (simp add: Let_def rawRegionOf_def Let_def nlt)
  qed
next
  case (2 shape shapesOut)
  show ?case by simp
next
  case (3 isHole holeContour holeKids rest shape shapesOut)
  show ?case
  proof (cases isHole)
    case False
    with "3.IH"(1) show ?thesis by simp
  next
    case True
    show ?thesis
    proof
      assume wf: "\<forall>m \<in> set (concat (map fillNodes (islandsIn (PolyNode isHole holeContour holeKids # rest)))). 3 \<le> length (m_polygon m)"
      have wfk: "\<forall>m \<in> set (concat (map fillNodes (filter (\<lambda>hk. \<not> m_IsHole hk) holeKids))). 3 \<le> length (m_polygon m)"
        using wf True by simp
      have wfr: "\<forall>m \<in> set (concat (map fillNodes (islandsIn rest))). 3 \<le> length (m_polygon m)"
        using wf by simp
      have nn: "\<not> \<not> isHole" using True by simp
      note k = mp[OF "3.IH"(2)[OF nn refl] wfk]
      note r = mp[OF "3.IH"(3)[OF nn refl refl] wfr]
      show "childrenLoop_initial (PolyNode isHole holeContour holeKids # rest) shape shapesOut =
         (shape\<lparr>holes := holes shape @ rawHolesOf (PolyNode isHole holeContour holeKids # rest)\<rparr>,
          shapesOut @ rawRegionsOfNodes (islandsIn (PolyNode isHole holeContour holeKids # rest)))"
        using True k r by (simp add: Let_def Let_def)
    qed
  qed
next
  case (4 shapesOut)
  show ?case by simp
next
  case (5 hk rest shapesOut)
  show ?case
  proof (cases "m_IsHole hk")
    case True
    with "5.IH"(3) show ?thesis by simp
  next
    case False
    show ?thesis
    proof
      assume wf: "\<forall>m \<in> set (concat (map fillNodes (filter (\<lambda>hk. \<not> m_IsHole hk) (hk # rest)))). 3 \<le> length (m_polygon m)"
      have wfh: "\<forall>m \<in> set (fillNodes hk). 3 \<le> length (m_polygon m)"
        using wf False by simp
      have wfr: "\<forall>m \<in> set (concat (map fillNodes (filter (\<lambda>hk. \<not> m_IsHole hk) rest))). 3 \<le> length (m_polygon m)"
        using wf False by simp
      note b = mp[OF "5.IH"(1)[OF False] wfh]
      note r = mp[OF "5.IH"(2)[OF False refl b[symmetric]] wfr]
      have fn: "fillNodes hk = concat (map fillNodes (islandsIn (m_Childs hk))) @ [hk]"
        by (rule fillNodes.simps)
      show "holeKidsLoop_initial (hk # rest) shapesOut =
          shapesOut @ rawRegionsOfNodes (filter (\<lambda>hk. \<not> m_IsHole hk) (hk # rest))"
        using False b r by (simp add: fn)
    qed
  qed
qed

lemma rootsLoop_initial_regions:
  "(\<forall>m \<in> set (fillNodesOfTree tree). 3 \<le> length (m_polygon m)) \<Longrightarrow>
     rootsLoop_initial tree out = out @ map (\<lambda>n. Some (rawRegionOf n)) (fillNodesOfTree tree)"
proof (induction tree arbitrary: out)
  case Nil
  then show ?case by (simp add: fillNodesOfTree_def)
next
  case (Cons n tree)
  show ?case
  proof (cases "m_IsHole n")
    case True
    with Cons show ?thesis by (simp add: fillNodesOfTree_def)
  next
    case False
    have wfh: "\<forall>m \<in> set (fillNodes n). 3 \<le> length (m_polygon m)"
      using Cons.prems False by (simp add: fillNodesOfTree_def)
    have wfr: "\<forall>m \<in> set (fillNodesOfTree tree). 3 \<le> length (m_polygon m)"
      using Cons.prems False by (simp add: fillNodesOfTree_def)
    note b = mp[OF build_loops_initial(1) wfh]
    have fn: "fillNodes n = concat (map fillNodes (islandsIn (m_Childs n))) @ [n]"
      by (rule fillNodes.simps)
    show ?thesis
      using False b Cons.IH[OF wfr] by (simp add: fillNodesOfTree_def fn)
  qed
qed


text \<open>
  Claim C2. For a polygon tree whose fill contours are polygons (at least three
  points), both designers emit exactly one region for every fill node: for every
  non-hole root and, recursively, for every non-hole node inside a hole of a fill
  node. The region of a node has the node's own contour as outer boundary and the
  node's direct holes as holes, so no island is dropped and none is merged into
  the region around it. The regions come out islands first.
\<close>

theorem polyTreeToThreeShapes_islands:
  assumes "\<forall>m \<in> set (fillNodesOfTree tree). 3 \<le> length (m_polygon m)"
  shows "polyTreeToThreeShapes_outline tree = map (\<lambda>n. Some (regionOf n)) (fillNodesOfTree tree)
       \<and> polyTreeToThreeShapes_initial tree = map (\<lambda>n. Some (rawRegionOf n)) (fillNodesOfTree tree)"
  using rootsLoop_outline_regions[OF assms, of "[]"] rootsLoop_initial_regions[OF assms, of "[]"]
  by (simp add: polyTreeToThreeShapes_outline_def polyTreeToThreeShapes_initial_def)

theorem polyTreeToThreeShapes_islands_witness:
  "map (\<lambda>m. length (m_polygon m)) (fillNodesOfTree nestedTree) = [4, 4, 4]
   \<and> map (map_option shapePts) (polyTreeToThreeShapes_outline nestedTree) =
       [Some [(4, 4), (5, 4), (5, 5), (4, 5)],
        Some [(2, 2), (7, 2), (7, 7), (2, 7)],
        Some [(0, 0), (9, 0), (9, 9), (0, 9)]]
   \<and> map (map_option shapePts) (polyTreeToThreeShapes_initial nestedTree) =
       [Some [(4, 4), (5, 4), (5, 5), (4, 5)],
        Some [(2, 2), (7, 2), (7, 7), (2, 7)],
        Some [(0, 0), (9, 0), (9, 9), (0, 9)]]"
proof -
  have h: "\<forall>m \<in> set (fillNodesOfTree nestedTree). 3 \<le> length (m_polygon m)"
    by (simp add: nestedTree_def fillNodesOfTree_def fillNodes.simps)
  show ?thesis
    using h polyTreeToThreeShapes_islands[OF h]
    by (simp add: nestedTree_def fillNodesOfTree_def fillNodes.simps regionOf_def rawRegionOf_def
          ensureCCW_def isClockWise_def area_def toVec2_def SCALE_def)
qed

text \<open>
  An island of fewer than three points is not a region: the inner loop pushes the
  empty result of \<^verbatim>\<open>buildFromOuter\<close> into the output.
\<close>

lemma short_island_pushes_null:
  "polyTreeToThreeShapes_outline
     [PolyNode False [(0, 0), (9000, 0), (0, 9000)]
        [PolyNode True [(1000, 1000), (1000, 2000), (2000, 1000)] [PolyNode False [] []]]]
   = [None, Some \<lparr>shapePts = [(0, 0), (9, 0), (0, 9)], holes = [[(1, 1), (1, 2), (2, 1)]]\<rparr>]"
  by (simp add: polyTreeToThreeShapes_outline_def toVec2_def SCALE_def isClockWise_def area_def)

text \<open>
  A tree of polygons is reconstructed without \<^verbatim>\<open>null\<close> entries: the output
  lists the regions of its fill nodes.
\<close>

lemma polygonTree_iff:
  "polygonTree tree \<longleftrightarrow> (\<forall>m \<in> set (fillNodesOfTree tree). 3 \<le> length (m_polygon m))"
  by (simp add: polygonTree_def list_all_iff)

lemma polygonTree_Nil [simp]: "polygonTree []"
  by (simp add: polygonTree_def fillNodesOfTree_def)

lemma polygonTree_shapes_outline:
  "polygonTree tree \<Longrightarrow>
     polyTreeToThreeShapes_outline tree = map (\<lambda>n. Some (regionOf n)) (fillNodesOfTree tree)"
  using rootsLoop_outline_regions[of tree "[]"]
  by (simp add: polygonTree_iff polyTreeToThreeShapes_outline_def)

lemma polygonTree_shapes_initial:
  "polygonTree tree \<Longrightarrow>
     polyTreeToThreeShapes_initial tree = map (\<lambda>n. Some (rawRegionOf n)) (fillNodesOfTree tree)"
  using rootsLoop_initial_regions[of tree "[]"]
  by (simp add: polygonTree_iff polyTreeToThreeShapes_initial_def)

subsection \<open>Orientation\<close>









text \<open>
  The area that the polygon engine computes for a path is the area that three.js
  computes for its points divided by 1000, times 1000 squared: orientation true for
  the engine is not clockwise for three.js.
\<close>

lemma clipperAreaLoop_three:
  "real_of_int (clipperAreaLoop p qs) =
     (real_of_int (fst p) * real_of_int (snd p)
        - real_of_int (fst (last (p # qs))) * real_of_int (snd (last (p # qs))))
     - SCALE * SCALE * areaLoop (toVec2 p) (map toVec2 qs)"
proof (induction qs arbitrary: p)
  case Nil
  show ?case by simp
next
  case (Cons q qs)
  define l where "l = last (q # qs)"
  define rest where "rest = areaLoop (toVec2 q) (map toVec2 qs)"
  have l: "last (p # q # qs) = l" by (simp add: l_def)
  have ih: "real_of_int (clipperAreaLoop q qs) =
     (real_of_int (fst q) * real_of_int (snd q) - real_of_int (fst l) * real_of_int (snd l))
     - SCALE * SCALE * rest"
    unfolding l_def rest_def by (rule Cons.IH)
  have step: "areaLoop (toVec2 p) (map toVec2 (q # qs)) =
      (real_of_int (fst p) * real_of_int (snd q) - real_of_int (fst q) * real_of_int (snd p))
        / (SCALE * SCALE) + rest"
    by (simp add: toVec2_def rest_def SCALE_def)
  have e: "real_of_int (clipperAreaLoop p (q # qs)) =
      (real_of_int (fst p) + real_of_int (fst q)) * (real_of_int (snd p) - real_of_int (snd q))
      + ((real_of_int (fst q) * real_of_int (snd q) - real_of_int (fst l) * real_of_int (snd l))
         - SCALE * SCALE * rest)"
    using ih by simp
  have s: "SCALE * SCALE *
      ((real_of_int (fst p) * real_of_int (snd q) - real_of_int (fst q) * real_of_int (snd p))
        / (SCALE * SCALE) + rest) =
      (real_of_int (fst p) * real_of_int (snd q) - real_of_int (fst q) * real_of_int (snd p))
      + SCALE * SCALE * rest"
    by (simp add: SCALE_def distrib_left)
  show ?case
    unfolding l step e s by (simp add: algebra_simps)
qed

lemma area_short: "length c < 3 \<Longrightarrow> area c = 0"
proof -
  assume "length c < 3"
  then consider "c = []" | p where "c = [p]" | p q where "c = [p, q]"
    by (cases c; cases "tl c"; cases "tl (tl c)") auto
  then show ?thesis by cases (simp_all add: area_def)
qed

lemma clipperArea_three: "clipperArea poly = SCALE * SCALE * area (map toVec2 poly)"
proof (cases "length poly < 3")
  case True
  then show ?thesis by (simp add: clipperArea_def area_short)
next
  case False
  then have ne: "poly \<noteq> []" by auto
  have "real_of_int (clipperAreaLoop (last poly) poly) =
      - (SCALE * SCALE * areaLoop (toVec2 (last poly)) (map toVec2 poly))"
    using clipperAreaLoop_three[of "last poly" poly] ne by simp
  then show ?thesis
    using False ne by (simp add: clipperArea_def area_def last_map)
qed

lemma clipperOrientation_three [simp]:
  "clipperOrientation poly \<longleftrightarrow> \<not> isClockWise (map toVec2 poly)"
  by (simp add: clipperOrientation_def clipperArea_three isClockWise_def SCALE_def not_less
        zero_le_mult_iff)

text \<open>
  On a tree wound as the engine winds its trees, both walks keep every region
  wound for the extrusion engine.
\<close>

lemma allWound_simps [simp]:
  "allWound []"
  "allWound (xs @ ys) \<longleftrightarrow> allWound xs \<and> allWound ys"
  "allWound [None]"
  "allWound [Some s] \<longleftrightarrow> woundForExtrusion s"
  by (simp_all add: allWound_def)










text \<open>
  The initial designer has no check of its own: a tree wound the other way round
  comes out as it went in.
\<close>

lemma polyTreeToThreeShapes_initial_keeps_winding:
  "polyTreeToThreeShapes_initial reversedTree
   = [Some \<lparr>shapePts = [(0, 0), (0, 1), (1, 0)], holes = [[(0.1, 0.1), (0.2, 0.1), (0.1, 0.2)]]\<rparr>]
   \<and> isClockWise [(0, 0), (0, 1), (1, 0)]
   \<and> \<not> isClockWise [(0.1, 0.1), (0.2, 0.1), (0.1, 0.2)]"
  by (simp add: reversedTree_def polyTreeToThreeShapes_initial_def toVec2_def SCALE_def
        isClockWise_def area_def)

section \<open>Scaling into and out of the polygon engine\<close>





lemma toPath_short: "length (toPath pts) < length pts \<Longrightarrow>
    2 < length pts \<and> toIntPoint (hd pts) = toIntPoint (last pts)"
  by (cases "pts = []") (auto simp: toPath_def Let_def hd_map last_map split: if_splits)











section \<open>The font cache\<close>

lemma getFont_hit: "fontCache s k = Some f \<Longrightarrow> getFont k s = (f, s)"
  by (simp add: getFont_def)

lemma getFont_cached_after: "fontCache (snd (getFont k s)) k = Some (fst (getFont k s))"
  by (simp add: getFont_def Let_def split: option.splits)

lemma getFont_keeps: "fontCache s k = Some f \<Longrightarrow> fontCache (snd (getFont k' s)) k = Some f"
  by (auto simp: getFont_def Let_def split: option.splits)

lemma getFonts_keeps: "fontCache s k = Some f \<Longrightarrow> fontCache (getFonts ks s) k = Some f"
  by (induction ks arbitrary: s) (simp_all add: getFonts_def getFont_keeps)

lemma getFont_inv: "storeInv s \<Longrightarrow> storeInv (snd (getFont k s))"
  by (auto simp: storeInv_def getFont_def Let_def split: option.splits)

lemma getFonts_inv: "storeInv s \<Longrightarrow> storeInv (getFonts ks s)"
  by (induction ks arbitrary: s) (simp_all add: getFonts_def getFont_inv)

lemma emptyFontStore_inv: "storeInv emptyFontStore"
  by (simp add: storeInv_def emptyFontStore_def)

lemma findFontOption_fallback:
  "k \<notin> set (map key FONT_OPTIONS) \<Longrightarrow> findFontOption k = FONT_OPTIONS ! 0"
proof -
  assume "k \<notin> set (map key FONT_OPTIONS)"
  then have "find (\<lambda>opt. key opt = k) FONT_OPTIONS = None"
    by (auto simp: find_None_iff)
  then show ?thesis by (simp add: findFontOption_def)
qed

lemma findFontOption_match:
  "k \<in> set (map key FONT_OPTIONS) \<Longrightarrow> key (findFontOption k) = k \<and> findFontOption k \<in> set FONT_OPTIONS"
  by (auto simp: findFontOption_def find_Some_iff split: option.splits simp: find_None_iff)

lemma distinct_count: "distinct xs \<Longrightarrow> x \<in> set xs \<Longrightarrow> count_list xs x = 1"
  by (induction xs) (auto simp: count_list_0_iff)

text \<open>
  Claim C10. \<^verbatim>\<open>getFont\<close> has no failing path: the option list is not empty, so
  the fallback \<^verbatim>\<open>FONT_OPTIONS[0]\<close> exists. Starting from the empty cache and after
  any calls \<open>ks\<close>, a call for \<open>k\<close> returns a font parsed from the option that
  \<open>k\<close> selects, which is the first option when no option has the key \<open>k\<close>;
  after any further calls \<open>ks'\<close> a call for \<open>k\<close> returns the same font object
  and leaves the store as it is, and \<open>k\<close> has been parsed exactly once.
\<close>

theorem getFont_cached:
  fixes ks ks' :: "string list" and k :: string
  defines "s \<equiv> getFonts ks emptyFontStore"
  defines "f \<equiv> fst (getFont k s)"
  defines "s' \<equiv> getFonts ks' (snd (getFont k s))"
  shows "0 < length FONT_OPTIONS
     \<and> fontJson f = json (findFontOption k)
     \<and> (k \<notin> set (map key FONT_OPTIONS) \<longrightarrow> fontJson f = json (FONT_OPTIONS ! 0))
     \<and> (k \<in> set (map key FONT_OPTIONS) \<longrightarrow> key (findFontOption k) = k)
     \<and> getFont k s' = (f, s')
     \<and> count_list (parseLog s') k = 1"
proof -
  have inv0: "storeInv s" unfolding s_def by (rule getFonts_inv[OF emptyFontStore_inv])
  have inv1: "storeInv (snd (getFont k s))" by (rule getFont_inv[OF inv0])
  have c1: "fontCache (snd (getFont k s)) k = Some f" unfolding f_def by (rule getFont_cached_after)
  have c2: "fontCache s' k = Some f" unfolding s'_def by (rule getFonts_keeps[OF c1])
  have inv2: "storeInv s'" unfolding s'_def by (rule getFonts_inv[OF inv1])
  have j: "fontJson f = json (findFontOption k)"
    using inv1 c1 by (simp add: storeInv_def)
  have cnt: "count_list (parseLog s') k = 1"
  proof (rule distinct_count)
    show "distinct (parseLog s')" using inv2 by (simp add: storeInv_def)
    show "k \<in> set (parseLog s')" using inv2 c2 by (auto simp: storeInv_def)
  qed
  show ?thesis
    using j cnt getFont_hit[OF c2] findFontOption_fallback[of k] findFontOption_match[of k]
    by (simp add: FONT_OPTIONS_def)
qed

theorem getFont_cached_witness:
  "''Comic Sans'' \<notin> set (map key FONT_OPTIONS)
   \<and> ''Showpop_Regular'' \<in> set (map key FONT_OPTIONS)
   \<and> fontJson (fst (getFont ''Comic Sans'' (getFonts [''Showpop_Regular''] emptyFontStore)))
       = ''titanOneJson''
   \<and> getFont ''Comic Sans''
        (getFonts [''Milkyway_Regular'']
           (snd (getFont ''Comic Sans'' (getFonts [''Showpop_Regular''] emptyFontStore))))
      = (fst (getFont ''Comic Sans'' (getFonts [''Showpop_Regular''] emptyFontStore)),
         getFonts [''Milkyway_Regular'']
           (snd (getFont ''Comic Sans'' (getFonts [''Showpop_Regular''] emptyFontStore))))
   \<and> key (findFontOption ''Showpop_Regular'') = ''Showpop_Regular''"
  using getFont_cached[of "''Comic Sans''" "[''Showpop_Regular'']" "[''Milkyway_Regular'']"]
        getFont_cached[of "''Showpop_Regular''" "[]" "[]"]
  by (simp add: FONT_OPTIONS_def findFontOption_def)

section \<open>The extrusion engine\<close>

text \<open>
  The constructor throws exactly when the array holds an empty entry; the bounding
  box of an extrusion runs from height 0 to its depth when a shape has points, and
  is empty otherwise.
\<close>

lemma those_None_iff: "those xs = None \<longleftrightarrow> None \<in> set xs"
  by (induction xs) (auto split: option.splits)

lemma those_map_Some [simp]: "those (map Some xs) = Some xs"
  by (induction xs) simp_all

lemma newExtrudeGeometry_throws:
  "None \<in> set shapes \<Longrightarrow> newExtrudeGeometry shapes depth = Inl TypeError"
  by (simp add: newExtrudeGeometry_def those_None_iff[THEN iffD2])

lemma newExtrudeGeometry_returns:
  "None \<notin> set shapes \<Longrightarrow> \<exists>regions. those shapes = Some regions
     \<and> newExtrudeGeometry shapes depth = Inr (ExtrudeGeometry regions depth)"
  by (cases "those shapes") (auto simp: newExtrudeGeometry_def those_None_iff)

lemma newExtrudeGeometry_regions [simp]:
  "newExtrudeGeometry (map Some regions) depth = Inr (ExtrudeGeometry regions depth)"
  by (simp add: newExtrudeGeometry_def)

lemma newExtrudeGeometry_outline:
  "polygonTree tree \<Longrightarrow>
     newExtrudeGeometry (polyTreeToThreeShapes_outline tree) depth =
       Inr (ExtrudeGeometry (map regionOf (fillNodesOfTree tree)) depth)"
  using newExtrudeGeometry_regions[of "map regionOf (fillNodesOfTree tree)" depth]
  by (simp add: polygonTree_shapes_outline o_def)

lemma newExtrudeGeometry_initial:
  "polygonTree tree \<Longrightarrow>
     newExtrudeGeometry (polyTreeToThreeShapes_initial tree) depth =
       Inr (ExtrudeGeometry (map rawRegionOf (fillNodesOfTree tree)) depth)"
  using newExtrudeGeometry_regions[of "map rawRegionOf (fillNodesOfTree tree)" depth]
  by (simp add: polygonTree_shapes_initial o_def)

lemma boundsOf_Min_Max:
  assumes "hs \<noteq> []"
  shows "boundsOf hs = Some (Min (set hs), Max (set hs))"
proof (cases hs)
  case Nil
  with assms show ?thesis by simp
next
  case (Cons a list)
  have "Min (set (a # list)) = fold min list a" by (rule Min.set_eq_fold)
  moreover have "Max (set (a # list)) = fold max list a" by (rule Max.set_eq_fold)
  ultimately show ?thesis using Cons by (simp add: boundsOf_def del: set_simps)
qed

lemma extrudeHeights_set:
  "set (extrudeHeights shapes depth) =
     (if list_ex (\<lambda>s. shapePoints s \<noteq> []) shapes then {0, depth} else {})"
  by (induction shapes) (auto simp: extrudeHeights_def)

lemma extrudeHeights_empty:
  "extrudeHeights shapes depth = [] \<longleftrightarrow> \<not> list_ex (\<lambda>s. shapePoints s \<noteq> []) shapes"
  using extrudeHeights_set[of shapes depth] by (auto split: if_splits)

lemma boundsOf_extrudeHeights:
  "boundsOf (extrudeHeights shapes depth) =
     (if list_ex (\<lambda>s. shapePoints s \<noteq> []) shapes then Some (min 0 depth, max 0 depth) else None)"
proof (cases "list_ex (\<lambda>s. shapePoints s \<noteq> []) shapes")
  case True
  then have ne: "extrudeHeights shapes depth \<noteq> []" by (simp add: extrudeHeights_empty)
  have s: "set (extrudeHeights shapes depth) = {0, depth}"
    using True by (simp add: extrudeHeights_set)
  show ?thesis using True boundsOf_Min_Max[OF ne] by (simp add: s)
next
  case False
  then have "extrudeHeights shapes depth = []" by (simp add: extrudeHeights_empty)
  with False show ?thesis by (simp add: boundsOf_def)
qed

lemma zExtent_extrusion:
  "zExtent \<lparr>role = r, geometry = ExtrudeGeometry shapes depth, position_z = z\<rparr> =
     (if list_ex (\<lambda>s. shapePoints s \<noteq> []) shapes then Some \<bar>depth\<bar> else None)"
  by (simp add: zExtent_def boundsOf_extrudeHeights min_def max_def)

lemma regions_have_points:
  "list_all (\<lambda>s. 3 \<le> length (shapePts s)) regions \<Longrightarrow>
     list_ex (\<lambda>s. shapePoints s \<noteq> []) regions \<longleftrightarrow> regions \<noteq> []"
  by (cases regions) (auto simp: shapePoints_def list_all_iff list_ex_iff)

lemma zExtent_regions:
  assumes "list_all (\<lambda>s. 3 \<le> length (shapePts s)) regions" "0 < depth"
  shows "zExtent \<lparr>role = r, geometry = ExtrudeGeometry regions depth, position_z = z\<rparr> =
     (if length regions = 0 then None else Some depth)"
  using assms regions_have_points[OF assms(1)] by (simp add: zExtent_extrusion)

section \<open>The rebuilt groups\<close>

text \<open>
  What the rebuilds of the text outline designer and of the initial designer leave
  in the group when the engine returns trees of polygons: no extrusion throws.
\<close>

lemma polygonTree_outlineTreeOf:
  "enginePolygons env \<Longrightarrow> polygonTree (outlineTreeOf env paths w)"
  by (simp add: enginePolygons_def outlineTreeOf_def)

lemma polygonTree_keyringBaseTree:
  "enginePolygons env \<Longrightarrow> polygonTree tree \<Longrightarrow> polygonTree (keyringBaseTree env st tree)"
  by (auto simp: enginePolygons_def keyringBaseTree_def Let_def split_def
           split: option.splits)

lemma keyringBaseTree_textValue [simp]:
  "keyringBaseTree env (st\<lparr>textValue := t\<rparr>) tree = keyringBaseTree env st tree"
  by (cases "getTreeBbox tree") (simp_all add: keyringBaseTree_def)

lemma outlineMeshes_polygons:
  assumes "enginePolygons env"
  shows "\<exists>baseRegions textRegions.
     outlineMeshes env st f =
       (None,
        [\<lparr>role = Base, geometry = ExtrudeGeometry baseRegions (max 0.1 (baseDepth st)),
           position_z = 0\<rparr>,
         \<lparr>role = TextLayer, geometry = ExtrudeGeometry textRegions (max 0.1 (textDepth st)),
           position_z = max 0.1 (baseDepth st) - TEXT_BASE_EMBED\<rparr>])
     \<and> list_all (\<lambda>s. 3 \<le> length (shapePts s)) baseRegions
     \<and> list_all (\<lambda>s. 3 \<le> length (shapePts s)) textRegions"
proof -
  define sizePx where "sizePx = max 1 (real_of_int (round (textSize st)))"
  define inputPaths where
    "inputPaths = inputPathsLoop env
       (generateShapes env (fontJson f) (if textValue st = [] then '' '' else textValue st) sizePx) []"
  define outlineTree where
    "outlineTree = outlineTreeOf env inputPaths (max 0 (outlineOffsetPx st) * (sizePx / 60))"
  define baseTree where
    "baseTree = (if keyringEnabled st then keyringBaseTree env st outlineTree else outlineTree)"
  have pf: "polygonTree (ExecuteUnion env inputPaths)"
    using assms by (simp add: enginePolygons_def)
  have po: "polygonTree outlineTree"
    unfolding outlineTree_def by (rule polygonTree_outlineTreeOf[OF assms])
  have pb: "polygonTree baseTree"
    unfolding baseTree_def using po by (simp add: polygonTree_keyringBaseTree[OF assms po])
  have len: "polygonTree tree \<Longrightarrow>
      list_all (\<lambda>s. 3 \<le> length (shapePts s)) (map regionOf (fillNodesOfTree tree))" for tree
    by (simp add: polygonTree_iff list_all_iff regionOf_def ensureCCW_def)
  have "outlineMeshes env st f =
       (None,
        [\<lparr>role = Base,
           geometry = ExtrudeGeometry (map regionOf (fillNodesOfTree baseTree)) (max 0.1 (baseDepth st)),
           position_z = 0\<rparr>,
         \<lparr>role = TextLayer,
           geometry = ExtrudeGeometry (map regionOf (fillNodesOfTree (ExecuteUnion env inputPaths)))
                        (max 0.1 (textDepth st)),
           position_z = max 0.1 (baseDepth st) - TEXT_BASE_EMBED\<rparr>])"
    unfolding outlineMeshes_def Let_def sizePx_def[symmetric] inputPaths_def[symmetric]
      outlineTree_def[symmetric] baseTree_def[symmetric]
    by (simp add: newExtrudeGeometry_outline[OF pb] newExtrudeGeometry_outline[OF pf])
  with len[OF pb] len[OF pf] show ?thesis by blast
qed

lemma outlineMeshes_empty_text:
  "outlineMeshes env (st\<lparr>textValue := ''''\<rparr>) f = outlineMeshes env (st\<lparr>textValue := '' ''\<rparr>) f"
  by (simp add: outlineMeshes_def Let_def split: sum.splits)

lemma rebuildMeshes_outline_not_ready:
  "\<not> (scene st \<and> group st \<noteq> None \<and> font st \<noteq> None) \<Longrightarrow> rebuildMeshes_outline env st = (None, st)"
  by (cases "scene st"; cases "group st"; cases "font st"; simp add: rebuildMeshes_outline_def)

lemma rebuildMeshes_outline_ready:
  "scene st \<Longrightarrow> group st = Some children \<Longrightarrow> font st = Some f \<Longrightarrow>
     rebuildMeshes_outline env st =
       (fst (outlineMeshes env st f), st\<lparr>group := Some (snd (outlineMeshes env st f))\<rparr>)"
  by (simp add: rebuildMeshes_outline_def split_def Let_def)

lemma outline_rebuild_polygons:
  fixes st :: "'a DesignState_scheme"
  assumes "enginePolygons env" "scene st" "group st \<noteq> None" "font st \<noteq> None"
  shows "\<exists>baseRegions textRegions.
     rebuildMeshes_outline env st =
       (None,
        st\<lparr>group := Some
          [\<lparr>role = Base, geometry = ExtrudeGeometry baseRegions (max 0.1 (baseDepth st)),
             position_z = 0\<rparr>,
           \<lparr>role = TextLayer, geometry = ExtrudeGeometry textRegions (max 0.1 (textDepth st)),
             position_z = max 0.1 (baseDepth st) - TEXT_BASE_EMBED\<rparr>]\<rparr>)
     \<and> list_all (\<lambda>s. 3 \<le> length (shapePts s)) baseRegions
     \<and> list_all (\<lambda>s. 3 \<le> length (shapePts s)) textRegions"
proof -
  from assms obtain children f where r: "group st = Some children" "font st = Some f" by auto
  from outlineMeshes_polygons[OF assms(1), of st f] obtain baseRegions textRegions where
    m: "outlineMeshes env st f =
       (None,
        [\<lparr>role = Base, geometry = ExtrudeGeometry baseRegions (max 0.1 (baseDepth st)),
           position_z = 0\<rparr>,
         \<lparr>role = TextLayer, geometry = ExtrudeGeometry textRegions (max 0.1 (textDepth st)),
           position_z = max 0.1 (baseDepth st) - TEXT_BASE_EMBED\<rparr>])"
    and l: "list_all (\<lambda>s. 3 \<le> length (shapePts s)) baseRegions"
           "list_all (\<lambda>s. 3 \<le> length (shapePts s)) textRegions"
    by blast
  have "rebuildMeshes_outline env st =
       (None,
        st\<lparr>group := Some
          [\<lparr>role = Base, geometry = ExtrudeGeometry baseRegions (max 0.1 (baseDepth st)),
             position_z = 0\<rparr>,
           \<lparr>role = TextLayer, geometry = ExtrudeGeometry textRegions (max 0.1 (textDepth st)),
             position_z = max 0.1 (baseDepth st) - TEXT_BASE_EMBED\<rparr>]\<rparr>)"
    by (simp add: rebuildMeshes_outline_ready[OF assms(2) r] m)
  with l show ?thesis by blast
qed

lemma outline_empty_text_group:
  fixes so :: "'a DesignState_scheme"
  shows "group (snd (rebuildMeshes_outline env (so\<lparr>textValue := ''''\<rparr>)))
     = group (snd (rebuildMeshes_outline env (so\<lparr>textValue := '' ''\<rparr>)))"
proof (cases "scene so \<and> group so \<noteq> None \<and> font so \<noteq> None")
  case False
  then show ?thesis by (simp add: rebuildMeshes_outline_not_ready)
next
  case True
  then obtain children f where r: "scene so" "group so = Some children" "font so = Some f"
    by auto
  have a: "rebuildMeshes_outline env (so\<lparr>textValue := t\<rparr>) =
      (fst (outlineMeshes env (so\<lparr>textValue := t\<rparr>) f),
       so\<lparr>textValue := t, group := Some (snd (outlineMeshes env (so\<lparr>textValue := t\<rparr>) f))\<rparr>)" for t
    using r by (simp add: rebuildMeshes_outline_ready[of "so\<lparr>textValue := t\<rparr>" children f])
  show ?thesis by (simp add: a outlineMeshes_empty_text)
qed

lemma outline_no_exception:
  fixes st :: "'a DesignState_scheme"
  assumes "enginePolygons env"
  shows "fst (rebuildMeshes_outline env st) = None"
proof (cases "scene st \<and> group st \<noteq> None \<and> font st \<noteq> None")
  case False
  then show ?thesis by (simp add: rebuildMeshes_outline_not_ready)
next
  case True
  with outline_rebuild_polygons[OF assms, of st] show ?thesis by auto
qed

lemma outline_roles:
  fixes st :: "'a DesignState_scheme"
  assumes "enginePolygons env" "scene st" "group st \<noteq> None" "font st \<noteq> None"
  shows "map role (groupMeshes (group (snd (rebuildMeshes_outline env st)))) = [Base, TextLayer]"
  using outline_rebuild_polygons[OF assms] by (auto simp: groupMeshes_def)

lemma initialMeshes_polygons:
  fixes env :: Collaborators and st :: "'a InitialState_scheme" and f fontForInitial :: Font
  defines "sizePx \<equiv> max 1 (real_of_int (round (textSize st)))"
  defines "inputPaths \<equiv> inputPathsLoop env
       (generateShapes env (fontJson f) (if textValue st = [] then '' '' else textValue st) sizePx) []"
  defines "outlineTree \<equiv> outlineTreeOf env inputPaths (max 0 (outlineOffsetPx st) * (sizePx / 60))"
  defines "initialPaths \<equiv> inputPathsLoop env
       (generateShapes env (fontJson fontForInitial)
          (if toUpperCase env (take 1 (textValue st)) = [] then ''A''
           else toUpperCase env (take 1 (textValue st)))
          (max 1 (real_of_int (round (initialTextSize st))))) []"
  defines "initialTree \<equiv> (if length initialPaths > 0 then ExecuteUnion env initialPaths else [])"
  defines "baseRegions \<equiv> map rawRegionOf (fillNodesOfTree outlineTree)"
  defines "textRegions \<equiv> map rawRegionOf (fillNodesOfTree (ExecuteUnion env inputPaths))"
  defines "initialRegions \<equiv> map rawRegionOf (fillNodesOfTree initialTree)"
  defines "ringMeshes \<equiv>
     (if keyringEnabled st then
        [\<lparr>role = Keyring,
          geometry =
            RingGeometry
              (makeKeyringGeometry (max 1 (keyringOuterSize st))
                 (max 0.1 (min (keyringHoleSize st) (keyringOuterSize st - 0.5)))
                 (max 0.1 (keyringDepth st))),
          position_z = 0\<rparr>]
      else [])"
  assumes ep: "enginePolygons env"
  shows "initialMeshes env st f fontForInitial =
     (None,
      (if initialRegions \<noteq> [] then
         [\<lparr>role = InitialLayer,
           geometry = ExtrudeGeometry initialRegions (max 0.1 (initialDepth st)),
           position_z = 0.005\<rparr>,
          \<lparr>role = InitialBase,
           geometry = ExtrudeGeometry baseRegions (max 0.1 (initialDepth st)),
           position_z = 0\<rparr>,
          \<lparr>role = Base, geometry = ExtrudeGeometry baseRegions (max 0.1 (baseDepth st)),
           position_z = max 0.1 (initialDepth st) + 0.01\<rparr>,
          \<lparr>role = TextLayer, geometry = ExtrudeGeometry textRegions (max 0.1 (textDepth st)),
           position_z = max 0.1 (initialDepth st) + max 0.1 (baseDepth st) + 0.02\<rparr>]
       else
         [\<lparr>role = Base, geometry = ExtrudeGeometry baseRegions (max 0.1 (baseDepth st)),
           position_z = 0\<rparr>,
          \<lparr>role = TextLayer, geometry = ExtrudeGeometry textRegions (max 0.1 (textDepth st)),
           position_z = max 0.1 (baseDepth st) - 0.02\<rparr>])
      @ ringMeshes)"
proof -
  have pf: "polygonTree (ExecuteUnion env inputPaths)"
    using ep by (simp add: enginePolygons_def)
  have po: "polygonTree outlineTree"
    unfolding outlineTree_def by (rule polygonTree_outlineTreeOf[OF ep])
  have pi: "polygonTree initialTree"
    unfolding initialTree_def using ep by (simp add: enginePolygons_def)
  have li: "length (polyTreeToThreeShapes_initial initialTree) = length initialRegions"
    by (simp add: polygonTree_shapes_initial[OF pi] initialRegions_def)
  show ?thesis
    unfolding initialMeshes_def Let_def sizePx_def[symmetric] inputPaths_def[symmetric]
      outlineTree_def[symmetric] initialPaths_def[symmetric] initialTree_def[symmetric]
      ringMeshes_def[symmetric]
    by (simp add: newExtrudeGeometry_initial[OF po] newExtrudeGeometry_initial[OF pf]
          newExtrudeGeometry_initial[OF pi] li baseRegions_def[symmetric] textRegions_def[symmetric]
          initialRegions_def[symmetric])
qed

lemma rebuildMeshes_initial_not_ready:
  "\<not> (scene st \<and> group st \<noteq> None \<and> font st \<noteq> None) \<Longrightarrow>
     rebuildMeshes_initial env st store = (None, st, store)"
  by (cases "scene st"; cases "group st"; cases "font st"; simp add: rebuildMeshes_initial_def)

lemma rebuildMeshes_initial_ready:
  "scene st \<Longrightarrow> group st = Some children \<Longrightarrow> font st = Some f \<Longrightarrow>
     rebuildMeshes_initial env st store =
       (fst (initialMeshes env st f (fst (getFont (initialFontKey st) store))),
        st\<lparr>group := Some (snd (initialMeshes env st f (fst (getFont (initialFontKey st) store))))\<rparr>,
        snd (getFont (initialFontKey st) store))"
  by (simp add: rebuildMeshes_initial_def split_def Let_def)

lemma initialMeshes_group_irrelevant [simp]:
  "initialMeshes env (st\<lparr>group := g\<rparr>) f fi = initialMeshes env st f fi"
  by (simp add: initialMeshes_def Let_def cong: sum.case_cong)

lemma initial_no_exception:
  fixes st :: "'a InitialState_scheme"
  assumes "enginePolygons env"
  shows "fst (rebuildMeshes_initial env st store) = None"
proof (cases "scene st \<and> group st \<noteq> None \<and> font st \<noteq> None")
  case False
  then show ?thesis by (simp add: rebuildMeshes_initial_not_ready)
next
  case True
  then obtain children f where r: "scene st" "group st = Some children" "font st = Some f"
    by auto
  show ?thesis
    by (simp add: rebuildMeshes_initial_ready[OF r] initialMeshes_polygons[OF assms])
qed

lemma initial_base_text:
  fixes st :: "'a InitialState_scheme" and env :: Collaborators and store :: FontStore
    and f :: Font
  assumes "enginePolygons env" "scene st" "group st \<noteq> None" "font st = Some f"
  defines "sizePx \<equiv> max 1 (real_of_int (round (textSize st)))"
  defines "inputPaths \<equiv> inputPathsLoop env
       (generateShapes env (fontJson f) (if textValue st = [] then '' '' else textValue st) sizePx) []"
  defines "g \<equiv> group (fst (snd (rebuildMeshes_initial env st store)))"
  shows "map geometry (meshesWithRole Base g) =
           [ExtrudeGeometry
              (map rawRegionOf (fillNodesOfTree
                 (outlineTreeOf env inputPaths (max 0 (outlineOffsetPx st) * (sizePx / 60)))))
              (max 0.1 (baseDepth st))]"
    and "map geometry (meshesWithRole TextLayer g) =
           [ExtrudeGeometry (map rawRegionOf (fillNodesOfTree (ExecuteUnion env inputPaths)))
              (max 0.1 (textDepth st))]"
proof -
  from assms(3) obtain children where r: "group st = Some children" by auto
  note e = rebuildMeshes_initial_ready[OF assms(2) r assms(4), of env store]
  note m = initialMeshes_polygons[OF assms(1), of st f "fst (getFont (initialFontKey st) store)"]
  show "map geometry (meshesWithRole Base g) =
           [ExtrudeGeometry
              (map rawRegionOf (fillNodesOfTree
                 (outlineTreeOf env inputPaths (max 0 (outlineOffsetPx st) * (sizePx / 60)))))
              (max 0.1 (baseDepth st))]"
    unfolding g_def e m by (simp add: meshesWithRole_def groupMeshes_def sizePx_def inputPaths_def)
  show "map geometry (meshesWithRole TextLayer g) =
           [ExtrudeGeometry (map rawRegionOf (fillNodesOfTree (ExecuteUnion env inputPaths)))
              (max 0.1 (textDepth st))]"
    unfolding g_def e m by (simp add: meshesWithRole_def groupMeshes_def sizePx_def inputPaths_def)
qed

lemma initial_empty_text:
  fixes si :: "'a InitialState_scheme"
  assumes "enginePolygons env"
  shows "map geometry (meshesWithRole Base
             (group (fst (snd (rebuildMeshes_initial env (si\<lparr>textValue := ''''\<rparr>) store)))))
       = map geometry (meshesWithRole Base
             (group (fst (snd (rebuildMeshes_initial env (si\<lparr>textValue := '' ''\<rparr>) store)))))"
    and "map geometry (meshesWithRole TextLayer
             (group (fst (snd (rebuildMeshes_initial env (si\<lparr>textValue := ''''\<rparr>) store)))))
       = map geometry (meshesWithRole TextLayer
             (group (fst (snd (rebuildMeshes_initial env (si\<lparr>textValue := '' ''\<rparr>) store)))))"
proof -
  have "map geometry (meshesWithRole Base
             (group (fst (snd (rebuildMeshes_initial env (si\<lparr>textValue := ''''\<rparr>) store)))))
       = map geometry (meshesWithRole Base
             (group (fst (snd (rebuildMeshes_initial env (si\<lparr>textValue := '' ''\<rparr>) store)))))
     \<and> map geometry (meshesWithRole TextLayer
             (group (fst (snd (rebuildMeshes_initial env (si\<lparr>textValue := ''''\<rparr>) store)))))
       = map geometry (meshesWithRole TextLayer
             (group (fst (snd (rebuildMeshes_initial env (si\<lparr>textValue := '' ''\<rparr>) store)))))"
  proof (cases "scene si \<and> group si \<noteq> None \<and> font si \<noteq> None")
    case False
    then show ?thesis by (simp add: rebuildMeshes_initial_not_ready meshesWithRole_def)
  next
    case True
    then obtain f where r: "scene si" "group si \<noteq> None" "font si = Some f" by auto
    show ?thesis
      using r
      by (simp add: initial_base_text[OF assms, of "si\<lparr>textValue := ''''\<rparr>" f store]
            initial_base_text[OF assms, of "si\<lparr>textValue := '' ''\<rparr>" f store])
  qed
  then show "map geometry (meshesWithRole Base
             (group (fst (snd (rebuildMeshes_initial env (si\<lparr>textValue := ''''\<rparr>) store)))))
       = map geometry (meshesWithRole Base
             (group (fst (snd (rebuildMeshes_initial env (si\<lparr>textValue := '' ''\<rparr>) store)))))"
    and "map geometry (meshesWithRole TextLayer
             (group (fst (snd (rebuildMeshes_initial env (si\<lparr>textValue := ''''\<rparr>) store)))))
       = map geometry (meshesWithRole TextLayer
             (group (fst (snd (rebuildMeshes_initial env (si\<lparr>textValue := '' ''\<rparr>) store)))))"
    by simp_all
qed

lemma initial_has_base:
  fixes st :: "'a InitialState_scheme"
  assumes "enginePolygons env" "scene st" "group st \<noteq> None" "font st \<noteq> None"
  shows "length (meshesWithRole Base (group (fst (snd (rebuildMeshes_initial env st store))))) = 1
       \<and> length (meshesWithRole TextLayer (group (fst (snd (rebuildMeshes_initial env st store))))) = 1"
proof -
  from assms(4) obtain f where f: "font st = Some f" by auto
  from initial_base_text[OF assms(1,2,3) f, of store]
  have "length (map geometry (meshesWithRole Base (group (fst (snd (rebuildMeshes_initial env st store)))))) = 1"
    and "length (map geometry (meshesWithRole TextLayer (group (fst (snd (rebuildMeshes_initial env st store)))))) = 1"
    by simp_all
  then show ?thesis by simp
qed

section \<open>Running the model on the example inputs\<close>

text \<open>
  The definitions that evaluate the rebuilds and exports on the example inputs.
  The example engine returns trees of polygons and the example exporter writes the
  binary STL layout.
\<close>

lemmas example_defs =
  exampleEnv_def exampleOutlineState_def exampleInitialState_def exampleBasicNameState_def
  examplePolygons_def exampleFlowerState_def exampleFont_def triangleShape_def emptyFontStore_def
  exampleRequest_def

lemmas eval_defs =
  Let_def split_def shapeToPaths_def toPath_def toIntPoint_def toVec2_def SCALE_def ensureCW_def
  outlineTreeOf_def polyTreeToThreeShapes_outline_def polyTreeToThreeShapes_initial_def
  isClockWise_def area_def zProfile_def zExtents_def extrusionDepths_def extrusionInputs_def
  zBottom_def zTop_def zExtent_def boundsOf_def extrudeHeights_def shapePoints_def
  groupMeshes_def meshesWithRole_def newExtrudeGeometry_def
  TEXT_BASE_EMBED_def BORDER_BASE_EMBED_def FLOWER_TOP_BASE_EMBED_def
  getFont_def findFontOption_def FONT_OPTIONS_def makeKeyringGeometry_def scaleGeometryToDepth_def
  rebuildMeshes_outline_def outlineMeshes_def rebuildMeshes_initial_def initialMeshes_def
  rebuildMeshes_basicName_def rebuildMeshes_flower_def

lemma fillNodesOfTree_leaves:
  "fillNodesOfTree (map (\<lambda>p. PolyNode False p []) ps) = map (\<lambda>p. PolyNode False p []) ps"
  by (induction ps) (simp_all add: fillNodesOfTree_def fillNodes.simps)

lemma enginePolygons_exampleEnv: "enginePolygons exampleEnv"
  using fillNodesOfTree_leaves[of "[]"]
  by (simp add: enginePolygons_def polygonTree_iff exampleEnv_def fillNodesOfTree_leaves)


section \<open>Stacking of the layers\<close>

text \<open>
  The text outline, name tag and flower designers sink the upper layer into the
  layer beneath it (the text of the text outline designer by 0.2, border and text of
  the name tag by 0.05 and 0.2, the top layer of the flower by 0.05); the
  characters of the flower start 0.01 above the top layer. Without an initial
  (here for a text that begins with a space), the initial designer sinks its text
  0.02 into the base. Shown for the default settings.
\<close>

lemma sibling_layers_embedded:
  "zProfile (group (snd (rebuildMeshes_outline exampleEnv exampleOutlineState)))
       = [(Base, Some 0, Some 3), (TextLayer, Some 2.8, Some 4.8)]"
  "zProfile (group (fst (rebuildMeshes_basicName exampleEnv examplePolygons exampleBasicNameState
                            emptyFontStore)))
       = [(Base, Some 0, Some 2), (Border, Some 1.95, Some 2.95), (TextLayer, Some 1.8, Some 2.8)]"
  "zProfile (group (fst (rebuildMeshes_flower exampleEnv exampleFlowerState emptyFontStore)))
       = [(Base, Some 0, Some 1), (Top, Some 0.95, Some 1.95),
          (TextLayer, Some 1.96, Some 2.96), (TextLayer, Some 1.96, Some 2.96)]"
  "zProfile (group (fst (snd (rebuildMeshes_initial exampleEnv
                (exampleInitialState\<lparr>textValue := '' x''\<rparr>) emptyFontStore))))
       = [(Base, Some 0, Some 1), (TextLayer, Some 0.98, Some 1.98), (Keyring, Some 0, Some 4)]"
  by (simp_all add: example_defs eval_defs)

text \<open>
  Claim C4 does not hold in the initial designer. With the default settings its
  rebuild places the base at height 10.01, above the top of the initial base (10)
  and of the initial (10.005), and the text at height 11.02, above the top of the
  base (11.01): the bottom face of the upper solid does not lie below the top face
  of the lower solid, the two are separated by a gap.
\<close>

theorem initial_layers_not_embedded:
  "fst (rebuildMeshes_initial exampleEnv exampleInitialState emptyFontStore) = None
   \<and> zProfile (group (fst (snd (rebuildMeshes_initial exampleEnv exampleInitialState emptyFontStore))))
     = [(InitialLayer, Some 0.005, Some 10.005), (InitialBase, Some 0, Some 10),
        (Base, Some 10.01, Some 11.01), (TextLayer, Some 11.02, Some 12.02),
        (Keyring, Some 0, Some 4)]
   \<and> \<not> ((10.01::real) < 10) \<and> \<not> ((10.01::real) < 10.005) \<and> \<not> ((11.02::real) < 11.01)"
  by (simp add: example_defs eval_defs)

text \<open>
  The gap does not depend on the settings, the fonts or the engine: whenever the
  initial designer builds an initial, its base starts 0.01 above the height the
  initial base is extruded to, and its text 0.01 above the height the base
  reaches.
\<close>

lemma initial_layers_gap:
  fixes st :: "'a InitialState_scheme" and env :: Collaborators and store :: FontStore
  defines "g \<equiv> group (fst (snd (rebuildMeshes_initial env st store)))"
  assumes "enginePolygons env" "scene st" "group st \<noteq> None" "font st \<noteq> None"
    and "meshesWithRole InitialLayer g \<noteq> []"
  shows "\<exists>lower base upper.
     meshesWithRole InitialBase g = [lower] \<and> meshesWithRole Base g = [base]
     \<and> meshesWithRole TextLayer g = [upper]
     \<and> position_z lower = 0
     \<and> extrusionDepth (geometry lower) = Some (max 0.1 (initialDepth st))
     \<and> position_z base = max 0.1 (initialDepth st) + 0.01
     \<and> extrusionDepth (geometry base) = Some (max 0.1 (baseDepth st))
     \<and> position_z upper = position_z base + max 0.1 (baseDepth st) + 0.01"
proof -
  from assms(4,5) obtain children f where r: "group st = Some children" "font st = Some f" by auto
  note e = rebuildMeshes_initial_ready[OF assms(3) r, of env store]
  note m = initialMeshes_polygons[OF assms(2), of st f "fst (getFont (initialFontKey st) store)"]
  show ?thesis
    using assms(6) unfolding g_def e m
    by (simp add: meshesWithRole_def groupMeshes_def split: if_splits)
qed

section \<open>Extrusion depth\<close>

text \<open>
  Claim C8, as stated, fails for a positive depth below 0.1: in the text outline
  designer a requested base and text depth of 0.05 reaches the extrusion as 0.1,
  and the two meshes are 0.1 thick.
\<close>

theorem shallow_depth_is_raised:
  "(0::real) < 0.05
   \<and> fst (rebuildMeshes_outline exampleEnv
            (exampleOutlineState\<lparr>baseDepth := 0.05, textDepth := 0.05\<rparr>)) = None
   \<and> extrusionDepths (group (snd (rebuildMeshes_outline exampleEnv
                        (exampleOutlineState\<lparr>baseDepth := 0.05, textDepth := 0.05\<rparr>))))
       = [(Base, Some 0.1), (TextLayer, Some 0.1)]
   \<and> zExtents (group (snd (rebuildMeshes_outline exampleEnv
                        (exampleOutlineState\<lparr>baseDepth := 0.05, textDepth := 0.05\<rparr>))))
       = [(Base, Some 0.1), (TextLayer, Some 0.1)]"
  by (simp add: rebuildMeshes_outline_def outlineMeshes_def newExtrudeGeometry_def
        exampleEnv_def exampleOutlineState_def exampleFont_def triangleShape_def
        Let_def split_def shapeToPaths_def toPath_def toIntPoint_def toVec2_def SCALE_def ensureCW_def
        outlineTreeOf_def polyTreeToThreeShapes_outline_def isClockWise_def area_def
        zExtents_def extrusionDepths_def zExtent_def boundsOf_def extrudeHeights_def shapePoints_def
        groupMeshes_def TEXT_BASE_EMBED_def)

text \<open>
  Claim C8, amended. The extrusion calls hand the larger of 0.1 and the requested
  depth to the extrusion engine: \<^verbatim>\<open>makeKeyringGeometry\<close> for the ring, the text
  outline designer for its base and its text. There, with an engine that returns
  trees of polygons, a mesh whose extrusion received at least one region has this
  depth as its extent along z, and a mesh whose extrusion received none has no
  extent. The depth handed over equals the requested depth exactly when that is at
  least 0.1.
\<close>

theorem extrusion_depth_clamped:
  fixes st :: "'a DesignState_scheme"
  assumes "enginePolygons env" "scene st" "group st \<noteq> None" "font st \<noteq> None"
  shows "ringDepth (makeKeyringGeometry outerDiameter innerDiameter d) = max 0.1 d
   \<and> (ringDepth (makeKeyringGeometry outerDiameter innerDiameter d) = d \<longleftrightarrow> 0.1 \<le> d)
   \<and> extrusionDepths (group (snd (rebuildMeshes_outline env st)))
       = [(Base, Some (max 0.1 (baseDepth st))), (TextLayer, Some (max 0.1 (textDepth st)))]
   \<and> (\<exists>nb nt.
        extrusionInputs (group (snd (rebuildMeshes_outline env st))) = [(Base, nb), (TextLayer, nt)]
        \<and> zExtents (group (snd (rebuildMeshes_outline env st)))
            = [(Base, if nb = 0 then None else Some (max 0.1 (baseDepth st))),
               (TextLayer, if nt = 0 then None else Some (max 0.1 (textDepth st)))])"
proof -
  from outline_rebuild_polygons[OF assms] obtain baseRegions textRegions where
    m: "rebuildMeshes_outline env st =
       (None,
        st\<lparr>group := Some
          [\<lparr>role = Base, geometry = ExtrudeGeometry baseRegions (max 0.1 (baseDepth st)),
             position_z = 0\<rparr>,
           \<lparr>role = TextLayer, geometry = ExtrudeGeometry textRegions (max 0.1 (textDepth st)),
             position_z = max 0.1 (baseDepth st) - TEXT_BASE_EMBED\<rparr>]\<rparr>)"
    and l: "list_all (\<lambda>s. 3 \<le> length (shapePts s)) baseRegions"
           "list_all (\<lambda>s. 3 \<le> length (shapePts s)) textRegions"
    by blast
  have r: "ringDepth (makeKeyringGeometry outerDiameter innerDiameter d) = max 0.1 d"
    by (simp add: makeKeyringGeometry_def Let_def)
  have pb: "(0::real) < max 0.1 (baseDepth st)" and pt: "(0::real) < max 0.1 (textDepth st)"
    by (simp_all add: less_max_iff_disj)
  have d: "extrusionDepths (group (snd (rebuildMeshes_outline env st)))
       = [(Base, Some (max 0.1 (baseDepth st))), (TextLayer, Some (max 0.1 (textDepth st)))]"
    by (simp add: m extrusionDepths_def groupMeshes_def)
  have i: "extrusionInputs (group (snd (rebuildMeshes_outline env st)))
       = [(Base, length baseRegions), (TextLayer, length textRegions)]"
    by (simp add: m extrusionInputs_def groupMeshes_def)
  have e: "zExtents (group (snd (rebuildMeshes_outline env st)))
       = [(Base, if length baseRegions = 0 then None else Some (max 0.1 (baseDepth st))),
          (TextLayer, if length textRegions = 0 then None else Some (max 0.1 (textDepth st)))]"
    unfolding m zExtents_def groupMeshes_def
    by (simp add: zExtent_regions[OF l(1) pb] zExtent_regions[OF l(2) pt] del: length_0_conv)
  from i e have "\<exists>nb nt.
        extrusionInputs (group (snd (rebuildMeshes_outline env st))) = [(Base, nb), (TextLayer, nt)]
        \<and> zExtents (group (snd (rebuildMeshes_outline env st)))
            = [(Base, if nb = 0 then None else Some (max 0.1 (baseDepth st))),
               (TextLayer, if nt = 0 then None else Some (max 0.1 (textDepth st)))]"
    by blast
  with r d show ?thesis by (auto simp: max_def)
qed

theorem extrusion_depth_clamped_witness:
  "scene exampleOutlineState \<and> group exampleOutlineState \<noteq> None \<and> font exampleOutlineState \<noteq> None
   \<and> ringDepth (makeKeyringGeometry 8 4 4) = 4
   \<and> extrusionDepths (group (snd (rebuildMeshes_outline exampleEnv exampleOutlineState)))
       = [(Base, Some 3), (TextLayer, Some 2)]
   \<and> extrusionInputs (group (snd (rebuildMeshes_outline exampleEnv exampleOutlineState)))
       = [(Base, 1), (TextLayer, 1)]
   \<and> zExtents (group (snd (rebuildMeshes_outline exampleEnv exampleOutlineState)))
       = [(Base, Some 3), (TextLayer, Some 2)]"
proof -
  have r: "scene exampleOutlineState" "group exampleOutlineState \<noteq> None"
    "font exampleOutlineState \<noteq> None"
    by (simp_all add: example_defs)
  have i: "extrusionInputs (group (snd (rebuildMeshes_outline exampleEnv exampleOutlineState)))
       = [(Base, 1), (TextLayer, 1)]"
    by (simp add: example_defs eval_defs)
  from extrusion_depth_clamped[OF enginePolygons_exampleEnv r, of 8 4 4] i r
  show ?thesis by (auto simp: exampleOutlineState_def)
qed

section \<open>The empty text\<close>

text \<open>
  Claim C7, as stated, fails where it says that the extrusion never receives zero
  regions: with a font whose space glyph has no outline, the empty text gives the
  base and the text extrusion of both designers an empty list of shapes, and the
  base and text mesh of the text outline designer have no extent.
\<close>

theorem empty_text_zero_regions:
  "extrusionInputs (group (snd (rebuildMeshes_outline exampleEnv
                            (exampleOutlineState\<lparr>textValue := ''''\<rparr>))))
     = [(Base, 0), (TextLayer, 0)]
   \<and> zExtents (group (snd (rebuildMeshes_outline exampleEnv
                            (exampleOutlineState\<lparr>textValue := ''''\<rparr>))))
     = [(Base, None), (TextLayer, None)]
   \<and> extrusionInputs (group (fst (snd (rebuildMeshes_initial exampleEnv
                            (exampleInitialState\<lparr>textValue := ''''\<rparr>) emptyFontStore))))
     = [(InitialLayer, 1), (InitialBase, 0), (Base, 0), (TextLayer, 0), (Keyring, 1)]"
  by (simp add: example_defs eval_defs)

text \<open>
  Claim C7, amended. For the empty text the text outline designer and the
  initial designer hand a single space to the font: the text outline designer
  builds the same group as for the text of one space, the initial designer the same
  base and text geometry. With an engine that returns trees of polygons no
  exception is thrown, and when scene, group and font are set the rebuilt group
  holds the base mesh and the text mesh (exactly one of each in the initial
  designer); these are meshes without triangles when the extrusion received no
  region.
\<close>

theorem empty_text_builds_space:
  fixes so :: "'a DesignState_scheme" and si :: "'b InitialState_scheme"
  assumes "enginePolygons env"
  shows
  "fst (rebuildMeshes_outline env (so\<lparr>textValue := ''''\<rparr>)) = None
   \<and> group (snd (rebuildMeshes_outline env (so\<lparr>textValue := ''''\<rparr>)))
     = group (snd (rebuildMeshes_outline env (so\<lparr>textValue := '' ''\<rparr>)))
   \<and> (scene so \<and> group so \<noteq> None \<and> font so \<noteq> None \<longrightarrow>
        map role (groupMeshes (group (snd (rebuildMeshes_outline env (so\<lparr>textValue := ''''\<rparr>)))))
          = [Base, TextLayer])
   \<and> fst (rebuildMeshes_initial env (si\<lparr>textValue := ''''\<rparr>) store) = None
   \<and> map geometry (meshesWithRole Base
         (group (fst (snd (rebuildMeshes_initial env (si\<lparr>textValue := ''''\<rparr>) store)))))
       = map geometry (meshesWithRole Base
         (group (fst (snd (rebuildMeshes_initial env (si\<lparr>textValue := '' ''\<rparr>) store)))))
   \<and> map geometry (meshesWithRole TextLayer
         (group (fst (snd (rebuildMeshes_initial env (si\<lparr>textValue := ''''\<rparr>) store)))))
       = map geometry (meshesWithRole TextLayer
         (group (fst (snd (rebuildMeshes_initial env (si\<lparr>textValue := '' ''\<rparr>) store)))))
   \<and> (scene si \<and> group si \<noteq> None \<and> font si \<noteq> None \<longrightarrow>
        length (meshesWithRole Base
          (group (fst (snd (rebuildMeshes_initial env (si\<lparr>textValue := ''''\<rparr>) store))))) = 1
        \<and> length (meshesWithRole TextLayer
          (group (fst (snd (rebuildMeshes_initial env (si\<lparr>textValue := ''''\<rparr>) store))))) = 1)"
proof -
  have a: "scene so \<and> group so \<noteq> None \<and> font so \<noteq> None \<Longrightarrow>
        map role (groupMeshes (group (snd (rebuildMeshes_outline env (so\<lparr>textValue := ''''\<rparr>)))))
          = [Base, TextLayer]"
    by (intro outline_roles[OF assms]) simp_all
  have b: "scene si \<and> group si \<noteq> None \<and> font si \<noteq> None \<Longrightarrow>
        length (meshesWithRole Base
          (group (fst (snd (rebuildMeshes_initial env (si\<lparr>textValue := ''''\<rparr>) store))))) = 1
        \<and> length (meshesWithRole TextLayer
          (group (fst (snd (rebuildMeshes_initial env (si\<lparr>textValue := ''''\<rparr>) store))))) = 1"
    by (intro initial_has_base[OF assms]) simp_all
  from a b outline_empty_text_group[of env so] outline_no_exception[OF assms, of "so\<lparr>textValue := ''''\<rparr>"]
    initial_no_exception[OF assms, of "si\<lparr>textValue := ''''\<rparr>" store]
    initial_empty_text[OF assms, of si store]
  show ?thesis by blast
qed

theorem empty_text_builds_space_witness:
  "scene exampleOutlineState \<and> group exampleOutlineState \<noteq> None \<and> font exampleOutlineState \<noteq> None
   \<and> scene exampleInitialState \<and> group exampleInitialState \<noteq> None \<and> font exampleInitialState \<noteq> None
   \<and> fst (rebuildMeshes_outline exampleEnv (exampleOutlineState\<lparr>textValue := ''''\<rparr>)) = None
   \<and> map role (groupMeshes (group (snd (rebuildMeshes_outline exampleEnv
                                      (exampleOutlineState\<lparr>textValue := ''''\<rparr>)))))
       = [Base, TextLayer]
   \<and> fst (rebuildMeshes_initial exampleEnv (exampleInitialState\<lparr>textValue := ''''\<rparr>) emptyFontStore)
       = None
   \<and> map role (groupMeshes (group (fst (snd (rebuildMeshes_initial exampleEnv
                                      (exampleInitialState\<lparr>textValue := ''''\<rparr>) emptyFontStore)))))
       = [InitialLayer, InitialBase, Base, TextLayer, Keyring]"
  using empty_text_builds_space[OF enginePolygons_exampleEnv,
          of exampleOutlineState exampleInitialState emptyFontStore]
  by (simp add: example_defs eval_defs)

section \<open>The reactive rebuild of the initial designer\<close>

text \<open>
  Every component state that the effects of the initial designer leave behind is
  settled, and a rebuild of a settled component changes neither the component nor
  the font store.
\<close>

lemma afterEffects_settled:
  assumes "scene st" "group st = Some children" "font st = Some f"
  shows "settled_initial env (fst (afterEffects env st store)) (snd (afterEffects env st store))"
  using assms getFont_cached_after[of "initialFontKey st" store]
  by (simp add: afterEffects_def rebuildMeshes_initial_ready settled_initial_def)

lemma settled_fontsLoaded:
  "settled_initial env st store \<Longrightarrow> settled_initial env st (getFonts ks store)"
  by (auto simp: settled_initial_def getFonts_keeps)

lemma reachable_settled:
  "reachable_initial env p \<Longrightarrow> settled_initial env (fst p) (snd p)"
proof (induction rule: reachable_initial.induct)
  case (mounted st f store)
  then show ?case by (intro afterEffects_settled) simp_all
next
  case (changed st store st' f)
  from changed.IH obtain children where "group st = Some children"
    by (auto simp: settled_initial_def)
  with changed.hyps show ?case by (intro afterEffects_settled) simp_all
next
  case (fontsLoaded st store ks)
  then show ?case by (simp add: settled_fontsLoaded)
qed

lemma settled_rebuild:
  assumes "settled_initial env st store"
  shows "\<exists>thrown. rebuildMeshes_initial env st store = (thrown, st, store)"
proof -
  from assms obtain f fi where r: "scene st" "font st = Some f"
      "fontCache store (initialFontKey st) = Some fi"
      "group st = Some (snd (initialMeshes env st f fi))"
    by (auto simp: settled_initial_def)
  have "st\<lparr>group := Some (snd (initialMeshes env st f fi))\<rparr> = st"
    using r(4) by simp
  then show ?thesis
    using r by (simp add: rebuildMeshes_initial_ready[OF r(1) r(4) r(2)] getFont_hit[OF r(3)])
qed

lemma reachable_rebuild_group:
  assumes "reachable_initial env (st, store)"
  shows "group (fst (snd (rebuildMeshes_initial env st store))) = group st"
    and "group st \<noteq> None"
proof -
  from reachable_settled[OF assms] have s: "settled_initial env st store" by simp
  from settled_rebuild[OF s] show "group (fst (snd (rebuildMeshes_initial env st store))) = group st"
    by auto
  from s show "group st \<noteq> None" by (auto simp: settled_initial_def)
qed

lemma reachable_mounted: "reachable_initial exampleEnv (mountedInitialState, mountedFontStore)"
proof -
  have "reachable_initial exampleEnv (afterEffects exampleEnv exampleInitialState emptyFontStore)"
    by (rule reachable_initial.mounted[of exampleInitialState exampleFont])
       (simp_all add: exampleInitialState_def)
  then show ?thesis by (simp add: mountedInitialState_def mountedFontStore_def)
qed

section \<open>Export\<close>


lemma serializeGuarded_meshes:
  "Serialize ms' \<in> set (serializeGuarded env req ms) \<Longrightarrow> ms' = ms"
  by (auto simp: serializeGuarded_def thankYou_def split: option.splits if_splits)






lemma export_rebuilds_first:
  assumes "user req" "canExport req"
  shows "scene so \<and> group so \<noteq> None \<Longrightarrow>
           take 2 (fst (exportSTL_outline env req so)) = [CheckLicense, Rebuild]
           \<and> snd (exportSTL_outline env req so) = snd (rebuildMeshes_outline env so)
           \<and> (\<forall>ms. Serialize ms \<in> set (fst (exportSTL_outline env req so)) \<longrightarrow>
                 ms = groupMeshes (group (snd (rebuildMeshes_outline env so))))"
    and "scene sf \<and> group sf \<noteq> None \<Longrightarrow>
           take 2 (fst (exportSTL_flower env req sf store)) = [CheckLicense, Rebuild]
           \<and> snd (exportSTL_flower env req sf store) = rebuildMeshes_flower env sf store
           \<and> (\<forall>ms. Serialize ms \<in> set (fst (exportSTL_flower env req sf store)) \<longrightarrow>
                 ms = groupMeshes (group (fst (rebuildMeshes_flower env sf store))))"
    and "scene sn \<and> group sn \<noteq> None \<Longrightarrow>
           take 2 (fst (exportSTL_basicName env polys req sn store)) = [CheckLicense, Rebuild]
           \<and> snd (exportSTL_basicName env polys req sn store) = rebuildMeshes_basicName env polys sn store
           \<and> (\<forall>ms. Serialize ms \<in> set (fst (exportSTL_basicName env polys req sn store)) \<longrightarrow>
                 ms = groupMeshes (group (fst (rebuildMeshes_basicName env polys sn store))))"
proof -
  show "scene so \<and> group so \<noteq> None \<Longrightarrow>
           take 2 (fst (exportSTL_outline env req so)) = [CheckLicense, Rebuild]
           \<and> snd (exportSTL_outline env req so) = snd (rebuildMeshes_outline env so)
           \<and> (\<forall>ms. Serialize ms \<in> set (fst (exportSTL_outline env req so)) \<longrightarrow>
                 ms = groupMeshes (group (snd (rebuildMeshes_outline env so))))"
    using assms
      serializeGuarded_meshes[of _ env req "groupMeshes (group (snd (rebuildMeshes_outline env so)))"]
    by (auto simp: exportSTL_outline_def Let_def split_def split: option.splits)
  show "scene sf \<and> group sf \<noteq> None \<Longrightarrow>
           take 2 (fst (exportSTL_flower env req sf store)) = [CheckLicense, Rebuild]
           \<and> snd (exportSTL_flower env req sf store) = rebuildMeshes_flower env sf store
           \<and> (\<forall>ms. Serialize ms \<in> set (fst (exportSTL_flower env req sf store)) \<longrightarrow>
                 ms = groupMeshes (group (fst (rebuildMeshes_flower env sf store))))"
    using assms
      serializeGuarded_meshes[of _ env req "groupMeshes (group (fst (rebuildMeshes_flower env sf store)))"]
    by (auto simp: exportSTL_flower_def Let_def split_def)
  show "scene sn \<and> group sn \<noteq> None \<Longrightarrow>
           take 2 (fst (exportSTL_basicName env polys req sn store)) = [CheckLicense, Rebuild]
           \<and> snd (exportSTL_basicName env polys req sn store) = rebuildMeshes_basicName env polys sn store
           \<and> (\<forall>ms. Serialize ms \<in> set (fst (exportSTL_basicName env polys req sn store)) \<longrightarrow>
                 ms = groupMeshes (group (fst (rebuildMeshes_basicName env polys sn store))))"
    using assms
    by (auto simp: exportSTL_basicName_def Let_def split_def thankYou_def split: option.splits)
qed

lemma exportSTL_initial_no_rebuild: "Rebuild \<notin> set (fst (exportSTL_initial env req si))"
  by (auto simp: exportSTL_initial_def thankYou_def split: option.splits)

lemma exportSTL_initial_reachable:
  assumes "user req" "canExport req" "reachable_initial env (si, store)"
  shows "fst (exportSTL_initial env req si) =
     [CheckLicense,
      Serialize (groupMeshes (group (fst (snd (rebuildMeshes_initial env si store))))),
      Download (exporterByteLength env
                  (groupMeshes (group (fst (snd (rebuildMeshes_initial env si store))))))]
     @ thankYou req"
proof -
  from reachable_rebuild_group[OF assms(3)] obtain children where
    g: "group si = Some children"
       "group (fst (snd (rebuildMeshes_initial env si store))) = Some children"
    by auto
  show ?thesis using assms(1,2) by (simp add: exportSTL_initial_def g groupMeshes_def)
qed



text \<open>
  Claim C5, as stated, fails in the initial designer: its export does not call
  the rebuild. After the license check it hands the group as it stands to the
  exporter; here the component as it was mounted with the default settings.
\<close>

theorem exportSTL_initial_does_not_rebuild:
  "fst (exportSTL_initial exampleEnv exampleRequest mountedInitialState)
     = [CheckLicense, Serialize (groupMeshes (group mountedInitialState)), Download (Some 334)]
   \<and> Rebuild \<notin> set (fst (exportSTL_initial exampleEnv exampleRequest mountedInitialState))
   \<and> map role (groupMeshes (group mountedInitialState))
       = [InitialLayer, InitialBase, Base, TextLayer, Keyring]"
  by (simp add: exportSTL_initial_def thankYou_def mountedInitialState_def afterEffects_def
        example_defs eval_defs)

text \<open>
  Claim C5, amended. The export of the text outline, flower and name tag
  designers checks the license first, rebuilds right after the check and
  serializes the rebuilt meshes. The export of the initial designer never
  rebuilds; the effects of the component rebuild its group on mount and after
  every change of a parameter or of a font, so the meshes that the export
  serializes after the check are those that a rebuild at that moment leaves in the
  group.
\<close>

theorem export_serializes_rebuilt_meshes:
  fixes so :: "'a DesignState_scheme" and sf :: "'b FlowerState_scheme"
    and sn :: "'c BasicNameState_scheme" and si :: "'d InitialState_scheme"
  assumes "user req" "canExport req"
  shows "(scene so \<and> group so \<noteq> None \<longrightarrow>
           take 2 (fst (exportSTL_outline env req so)) = [CheckLicense, Rebuild]
           \<and> (\<forall>ms. Serialize ms \<in> set (fst (exportSTL_outline env req so)) \<longrightarrow>
                 ms = groupMeshes (group (snd (rebuildMeshes_outline env so)))))
     \<and> (scene sf \<and> group sf \<noteq> None \<longrightarrow>
           take 2 (fst (exportSTL_flower env req sf storeF)) = [CheckLicense, Rebuild]
           \<and> (\<forall>ms. Serialize ms \<in> set (fst (exportSTL_flower env req sf storeF)) \<longrightarrow>
                 ms = groupMeshes (group (fst (rebuildMeshes_flower env sf storeF)))))
     \<and> (scene sn \<and> group sn \<noteq> None \<longrightarrow>
           take 2 (fst (exportSTL_basicName env polys req sn storeN)) = [CheckLicense, Rebuild]
           \<and> (\<forall>ms. Serialize ms \<in> set (fst (exportSTL_basicName env polys req sn storeN)) \<longrightarrow>
                 ms = groupMeshes (group (fst (rebuildMeshes_basicName env polys sn storeN)))))
     \<and> Rebuild \<notin> set (fst (exportSTL_initial env req si))
     \<and> (reachable_initial env (si, store) \<longrightarrow>
           fst (exportSTL_initial env req si) =
             [CheckLicense,
              Serialize (groupMeshes (group (fst (snd (rebuildMeshes_initial env si store))))),
              Download (exporterByteLength env
                          (groupMeshes (group (fst (snd (rebuildMeshes_initial env si store))))))]
             @ thankYou req)"
  using export_rebuilds_first(1)[OF assms, of so env]
    export_rebuilds_first(2)[OF assms, of sf env storeF]
    export_rebuilds_first(3)[OF assms, of sn env polys storeN]
    exportSTL_initial_no_rebuild[of env req si]
    exportSTL_initial_reachable[OF assms, of env si store]
  by blast

theorem export_serializes_rebuilt_meshes_witness:
  "user exampleRequest \<and> canExport exampleRequest
   \<and> scene exampleOutlineState \<and> group exampleOutlineState \<noteq> None
   \<and> scene exampleFlowerState \<and> group exampleFlowerState \<noteq> None
   \<and> scene exampleBasicNameState \<and> group exampleBasicNameState \<noteq> None
   \<and> take 2 (fst (exportSTL_outline exampleEnv exampleRequest exampleOutlineState))
       = [CheckLicense, Rebuild]
   \<and> take 2 (fst (exportSTL_flower exampleEnv exampleRequest exampleFlowerState emptyFontStore))
       = [CheckLicense, Rebuild]
   \<and> take 2 (fst (exportSTL_basicName exampleEnv examplePolygons exampleRequest
                     exampleBasicNameState emptyFontStore))
       = [CheckLicense, Rebuild]
   \<and> fst (exportSTL_initial exampleEnv exampleRequest mountedInitialState)
       = [CheckLicense,
          Serialize (groupMeshes (group (fst (snd (rebuildMeshes_initial exampleEnv
                       mountedInitialState mountedFontStore))))),
          Download (Some 334)]"
proof -
  have r: "user exampleRequest" "canExport exampleRequest" by (simp_all add: exampleRequest_def)
  have s: "scene exampleOutlineState \<and> group exampleOutlineState \<noteq> None"
    "scene exampleFlowerState \<and> group exampleFlowerState \<noteq> None"
    "scene exampleBasicNameState \<and> group exampleBasicNameState \<noteq> None"
    by (simp_all add: example_defs)
  have t: "thankYou exampleRequest = []" by (simp add: thankYou_def exampleRequest_def)
  have d: "filter isDownload (fst (exportSTL_initial exampleEnv exampleRequest mountedInitialState))
     = [Download (Some 334)]"
    by (simp add: exportSTL_initial_def thankYou_def mountedInitialState_def afterEffects_def
        example_defs eval_defs)
  note w = export_serializes_rebuilt_meshes[OF r, where so = exampleOutlineState
             and env = exampleEnv and sf = exampleFlowerState and storeF = emptyFontStore
             and sn = exampleBasicNameState and polys = examplePolygons and storeN = emptyFontStore
             and si = mountedInitialState and store = mountedFontStore]
  from w reachable_mounted have
    e: "fst (exportSTL_initial exampleEnv exampleRequest mountedInitialState) =
             [CheckLicense,
              Serialize (groupMeshes (group (fst (snd (rebuildMeshes_initial exampleEnv
                           mountedInitialState mountedFontStore))))),
              Download (exporterByteLength exampleEnv
                          (groupMeshes (group (fst (snd (rebuildMeshes_initial exampleEnv
                             mountedInitialState mountedFontStore))))))]
             @ thankYou exampleRequest"
    by blast
  from d e have "exporterByteLength exampleEnv
          (groupMeshes (group (fst (snd (rebuildMeshes_initial exampleEnv
             mountedInitialState mountedFontStore))))) = Some 334"
    by (simp add: t)
  with e t w r s show ?thesis by simp
qed

end
